theory Spec2Isabelle
  imports Main
begin

section \<open>The service manager of galera-healthcheck\<close>

text \<open>
  A shallow embedding of \<^verbatim>\<open>service_manager/service_manager.go\<close>. The service manager
  talks to three collaborators: the file system (\<^verbatim>\<open>ioutil.WriteFile\<close>), the monit client
  (\<^verbatim>\<open>Start\<close>, \<^verbatim>\<open>Stop\<close>, \<^verbatim>\<open>Status\<close>) and the HTTP client (\<^verbatim>\<open>Get\<close>); it also logs. Each
  call is recorded, in order, in the trace of the world; what a collaborator answers is
  given by an environment. The loop of \<^verbatim>\<open>waitForGaleraInit\<close> has no bound, so the model
  returns an option: \<open>None\<close> is the loop that never returns.
\<close>

subsection \<open>Errors\<close>

text \<open>
  Go error values, as the code builds them: \<^verbatim>\<open>errors.New(msg)\<close>,
  \<^verbatim>\<open>errors.Wrap(err, msg)\<close> and \<^verbatim>\<open>errors.Errorf(format, arg)\<close> (the format is kept with
  its one argument, unformatted). The errors of the collaborators are values of the same
  type.
\<close>

datatype error =
    New string
  | Wrap error string
  | Errorf string string

text \<open>The names the specification gives to the errors built by the service manager.\<close>

definition InvalidIntent :: error where
  "InvalidIntent = New ''bootstrapping arbitrator not allowed''"

definition PersistenceFailure :: "error \<Rightarrow> error" where
  "PersistenceFailure err = Wrap err ''failed to initialize state file''"

definition StatusQueryFailed :: "string \<Rightarrow> error" where
  "StatusQueryFailed name = Errorf ''error fetching status for service %q'' name"

definition ProcessNotRunning :: error where
  "ProcessNotRunning = New ''job failed during startup''"

definition ReadinessRejected :: "string \<Rightarrow> error" where
  "ReadinessRejected status = Errorf ''unexpected response from node: %v'' status"

subsection \<open>Data\<close>

text \<open>
  The fields of \<^verbatim>\<open>ServiceManager\<close> that hold data; \<^verbatim>\<open>MonitClient\<close> and \<^verbatim>\<open>Logger\<close> are
  collaborators and live in the environment and the world.
\<close>

record ServiceManager =
  ServiceName :: string
  StateFilePath :: string
  GaleraInitAddress :: string

text \<open>The two fields of \<^verbatim>\<open>http.Response\<close> that the code reads.\<close>

record response =
  Status :: string
  StatusCode :: int

definition StatusOK :: int where
  "StatusOK = 200"

text \<open>Every call to a collaborator, and every receive from the ticker's channel.\<close>

datatype event =
    is_WriteFile: WriteFile string string
  | is_MonitStart: MonitStart string
  | is_MonitStop: MonitStop string
  | is_MonitStatus: MonitStatus string
  | is_TickerC: TickerC nat
  | is_HttpGet: HttpGet string
  | is_LogInfo: LogInfo string "(string \<times> string) list"
  | is_LogError: LogError string error

text \<open>
  The world: the content of the files (a path that is not in the map has no file) and
  the calls made so far, the oldest first.
\<close>

record world =
  files :: "string \<rightharpoonup> string"
  trace :: "event list"

text \<open>
  The answers of the collaborators.
  \<^item> \<open>write_file_fails p\<close>: \<open>None\<close> when writing the file \<open>p\<close> succeeds; \<open>Some (err, c)\<close>
    when it fails with \<open>err\<close> and leaves the content \<open>c\<close> behind (\<open>None\<close>: no file).
  \<^item> \<open>monit_start\<close>, \<open>monit_stop\<close>: the error of \<^verbatim>\<open>Start\<close> and \<^verbatim>\<open>Stop\<close>, \<open>None\<close> for
    \<^verbatim>\<open>nil\<close>.
  \<^item> \<open>monit_status k\<close>, \<open>http_get k\<close>: the answers of \<^verbatim>\<open>Status\<close> and of the HTTP GET on
    the tick number \<open>k\<close> of the wait (the first tick is number 1); \<open>Inl\<close> is the error.
    A request that times out (after one second) is an error of the GET.
  \<^item> \<open>ServiceRunning\<close>: the constant \<^verbatim>\<open>monit_client.ServiceRunning\<close>, whose declaration is
    not among the sources; it is a parameter here.
\<close>

record env =
  write_file_fails :: "string \<Rightarrow> (error \<times> string option) option"
  monit_start :: "string \<Rightarrow> error option"
  monit_stop :: "string \<Rightarrow> error option"
  monit_status :: "nat \<Rightarrow> string \<Rightarrow> error + string"
  http_get :: "nat \<Rightarrow> string \<Rightarrow> error + response"
  ServiceRunning :: string

subsection \<open>The collaborators\<close>

definition emit :: "event \<Rightarrow> world \<Rightarrow> world" where
  "emit e w = w\<lparr>trace := trace w @ [e]\<rparr>"

text \<open>\<^verbatim>\<open>ioutil.WriteFile(path, data, 0777)\<close>: on success the file holds exactly \<open>data\<close>.\<close>

definition ioutil_WriteFile :: "env \<Rightarrow> string \<Rightarrow> string \<Rightarrow> world \<Rightarrow> error option \<times> world" where
  "ioutil_WriteFile e path data w =
     (let w1 = emit (WriteFile path data) w in
      case write_file_fails e path of
        None \<Rightarrow> (None, w1\<lparr>files := (files w1)(path \<mapsto> data)\<rparr>)
      | Some (err, left) \<Rightarrow> (Some err, w1\<lparr>files := (files w1)(path := left)\<rparr>))"

definition MonitClient_Start :: "env \<Rightarrow> string \<Rightarrow> world \<Rightarrow> error option \<times> world" where
  "MonitClient_Start e name w = (monit_start e name, emit (MonitStart name) w)"

definition MonitClient_Stop :: "env \<Rightarrow> string \<Rightarrow> world \<Rightarrow> error option \<times> world" where
  "MonitClient_Stop e name w = (monit_stop e name, emit (MonitStop name) w)"

definition MonitClient_Status :: "env \<Rightarrow> nat \<Rightarrow> string \<Rightarrow> world \<Rightarrow> (error + string) \<times> world" where
  "MonitClient_Status e k name w = (monit_status e k name, emit (MonitStatus name) w)"

definition httpClient_Get :: "env \<Rightarrow> nat \<Rightarrow> string \<Rightarrow> world \<Rightarrow> (error + response) \<times> world" where
  "httpClient_Get e k url w = (http_get e k url, emit (HttpGet url) w)"

subsection \<open>The readiness wait\<close>

text \<open>
  One pass through the body of the \<^verbatim>\<open>for\<close> loop of \<^verbatim>\<open>waitForGaleraInit\<close>, on the tick
  number \<open>k\<close>: it ends with \<^verbatim>\<open>continue\<close> or with \<^verbatim>\<open>return\<close> (\<open>Return None\<close> is
  \<^verbatim>\<open>return nil\<close>).
\<close>

datatype flow = Continue | Return "error option"

definition waitTick :: "env \<Rightarrow> ServiceManager \<Rightarrow> nat \<Rightarrow> world \<Rightarrow> flow \<times> world" where
  "waitTick e m k w =
     (let w1 = emit (TickerC k) w in
      case MonitClient_Status e k (ServiceName m) w1 of
        (Inl err, w2) \<Rightarrow>
          (Return (Some (Errorf ''error fetching status for service %q'' (ServiceName m))), w2)
      | (Inr status, w2) \<Rightarrow>
          (let w3 = emit (LogInfo ''check-monit-state''
                      [(''service'', ServiceName m), (''state'', status)]) w2 in
           if status \<noteq> ServiceRunning e
           then (Return (Some (New ''job failed during startup'')), w3)
           else
             (let w4 = emit (LogInfo ''check-galera-init'' []) w3 in
              case httpClient_Get e k (''http://'' @ GaleraInitAddress m) w4 of
                (Inl err, w5) \<Rightarrow> (Continue, emit (LogError ''check-galera-init'' err) w5)
              | (Inr res, w5) \<Rightarrow>
                  (let w6 = emit (LogInfo ''check-galera-init'' [(''status'', Status res)]) w5 in
                   if StatusCode res \<noteq> StatusOK
                   then (Return (Some (Errorf ''unexpected response from node: %v'' (Status res))), w6)
                   else (Return None, w6)))))"

text \<open>
  The loop: \<open>n\<close> ticks have gone by, the next pass waits for the tick \<open>Suc n\<close>. The loop
  has no exit but the \<^verbatim>\<open>return\<close>s of its body.
\<close>

partial_function (option) waitLoop ::
  "env \<Rightarrow> ServiceManager \<Rightarrow> nat \<Rightarrow> world \<Rightarrow> (error option \<times> world) option" where
  "waitLoop e m n w =
     (case waitTick e m (Suc n) w of
        (Continue, w') \<Rightarrow> waitLoop e m (Suc n) w'
      | (Return r, w') \<Rightarrow> Some (r, w'))"

definition waitForGaleraInit ::
  "env \<Rightarrow> ServiceManager \<Rightarrow> world \<Rightarrow> (error option \<times> world) option" where
  "waitForGaleraInit e m w = waitLoop e m 0 w"

subsection \<open>The operations\<close>

definition StartServiceBootstrap ::
  "env \<Rightarrow> ServiceManager \<Rightarrow> world \<Rightarrow> ((error + string) \<times> world) option" where
  "StartServiceBootstrap e m w =
     (if ServiceName m = ''garbd''
      then Some (Inl (New ''bootstrapping arbitrator not allowed''), w)
      else
        case ioutil_WriteFile e (StateFilePath m) ''NEEDS_BOOTSTRAP'' w of
          (Some err, w1) \<Rightarrow> Some (Inl (Wrap err ''failed to initialize state file''), w1)
        | (None, w1) \<Rightarrow>
            (case MonitClient_Start e (ServiceName m) w1 of
               (Some err, w2) \<Rightarrow> Some (Inl err, w2)
             | (None, w2) \<Rightarrow>
                 (case waitForGaleraInit e m w2 of
                    None \<Rightarrow> None
                  | Some (Some err, w3) \<Rightarrow> Some (Inl err, w3)
                  | Some (None, w3) \<Rightarrow> Some (Inr ''cluster bootstrap successful'', w3))))"

definition StartServiceJoin ::
  "env \<Rightarrow> ServiceManager \<Rightarrow> world \<Rightarrow> ((error + string) \<times> world) option" where
  "StartServiceJoin e m w =
     (case ioutil_WriteFile e (StateFilePath m) ''CLUSTERED'' w of
        (Some err, w1) \<Rightarrow> Some (Inl (Wrap err ''failed to initialize state file''), w1)
      | (None, w1) \<Rightarrow>
          (case MonitClient_Start e (ServiceName m) w1 of
             (Some err, w2) \<Rightarrow> Some (Inl err, w2)
           | (None, w2) \<Rightarrow>
               (case waitForGaleraInit e m w2 of
                  None \<Rightarrow> None
                | Some (Some err, w3) \<Rightarrow> Some (Inl err, w3)
                | Some (None, w3) \<Rightarrow> Some (Inr ''join cluster successful'', w3))))"

definition StartServiceSingleNode ::
  "env \<Rightarrow> ServiceManager \<Rightarrow> world \<Rightarrow> ((error + string) \<times> world) option" where
  "StartServiceSingleNode e m w =
     (case ioutil_WriteFile e (StateFilePath m) ''SINGLE_NODE'' w of
        (Some err, w1) \<Rightarrow> Some (Inl (Wrap err ''failed to initialize state file''), w1)
      | (None, w1) \<Rightarrow>
          (case MonitClient_Start e (ServiceName m) w1 of
             (Some err, w2) \<Rightarrow> Some (Inl err, w2)
           | (None, w2) \<Rightarrow>
               (case waitForGaleraInit e m w2 of
                  None \<Rightarrow> None
                | Some (Some err, w3) \<Rightarrow> Some (Inl err, w3)
                | Some (None, w3) \<Rightarrow> Some (Inr ''single node start successful'', w3))))"

definition StopService ::
  "env \<Rightarrow> ServiceManager \<Rightarrow> world \<Rightarrow> ((error + string) \<times> world) option" where
  "StopService e m w =
     (case MonitClient_Stop e (ServiceName m) w of
        (Some err, w1) \<Rightarrow> Some (Inl err, w1)
      | (None, w1) \<Rightarrow> Some (Inr ''stop successful'', w1))"

subsection \<open>The intents of the specification\<close>

text \<open>
  The specification speaks of three start intents, with one marker and one success message
  each. The tables below follow its words; the theorems compare them with what the three
  operations of the code write and return.
\<close>

datatype intent = Bootstrap | Join | SingleNode

definition start_service ::
  "intent \<Rightarrow> env \<Rightarrow> ServiceManager \<Rightarrow> world \<Rightarrow> ((error + string) \<times> world) option" where
  "start_service i =
     (case i of
        Bootstrap \<Rightarrow> StartServiceBootstrap
      | Join \<Rightarrow> StartServiceJoin
      | SingleNode \<Rightarrow> StartServiceSingleNode)"

definition marker :: "intent \<Rightarrow> string" where
  "marker i =
     (case i of
        Bootstrap \<Rightarrow> ''NEEDS_BOOTSTRAP''
      | Join \<Rightarrow> ''CLUSTERED''
      | SingleNode \<Rightarrow> ''SINGLE_NODE'')"

definition success_message :: "intent \<Rightarrow> string" where
  "success_message i =
     (case i of
        Bootstrap \<Rightarrow> ''cluster bootstrap successful''
      | Join \<Rightarrow> ''join cluster successful''
      | SingleNode \<Rightarrow> ''single node start successful'')"

text \<open>The one combination that the specification forbids.\<close>

definition arbitrator_bootstrap :: "intent \<Rightarrow> ServiceManager \<Rightarrow> bool" where
  "arbitrator_bootstrap i m = (i = Bootstrap \<and> ServiceName m = ''garbd'')"

text \<open>
  The world once the marker of the intent \<open>i\<close> has been written and the supervisor has
  been told to start: the file holds the marker, and the trace has grown by the write
  and, after it, the start.
\<close>

definition started :: "intent \<Rightarrow> ServiceManager \<Rightarrow> world \<Rightarrow> world" where
  "started i m w =
     w\<lparr>files := (files w)(StateFilePath m \<mapsto> marker i),
       trace := trace w @
         [WriteFile (StateFilePath m) (marker i), MonitStart (ServiceName m)]\<rparr>"

subsection \<open>The signals of a tick\<close>

text \<open>
  What the supervisor and the readiness endpoint answer to this service manager on the
  tick \<open>k\<close>.
\<close>

definition status_at :: "env \<Rightarrow> ServiceManager \<Rightarrow> nat \<Rightarrow> error + string" where
  "status_at e m k = monit_status e k (ServiceName m)"

definition probe_at :: "env \<Rightarrow> ServiceManager \<Rightarrow> nat \<Rightarrow> error + response" where
  "probe_at e m k = http_get e k (''http://'' @ GaleraInitAddress m)"

text \<open>
  The tolerated condition: the status is the running sentinel and the GET fails with an
  error (no response).
\<close>

definition retrying :: "env \<Rightarrow> ServiceManager \<Rightarrow> nat \<Rightarrow> bool" where
  "retrying e m k = (status_at e m k = Inr (ServiceRunning e) \<and> isl (probe_at e m k))"

text \<open>
  The decisive signals, as the specification lists them: a status query error, a status
  that is not the running sentinel, a response with a status code other than 200, a
  response with the status code 200.
\<close>

definition decisive :: "env \<Rightarrow> ServiceManager \<Rightarrow> nat \<Rightarrow> bool" where
  "decisive e m k =
     (case status_at e m k of
        Inl err \<Rightarrow> True
      | Inr s \<Rightarrow>
          s \<noteq> ServiceRunning e \<or>
          (case probe_at e m k of
             Inl err \<Rightarrow> False
           | Inr res \<Rightarrow> StatusCode res \<noteq> 200 \<or> StatusCode res = 200))"

subsection \<open>Reading a trace\<close>

definition count_ev :: "(event \<Rightarrow> bool) \<Rightarrow> event list \<Rightarrow> nat" where
  "count_ev P tr = length (filter P tr)"

text \<open>
  A pass of the loop only adds to the trace, and what it adds and how it ends do not
  depend on the world it starts from: both are read off a run from the empty world.
\<close>

definition tick_flow :: "env \<Rightarrow> ServiceManager \<Rightarrow> nat \<Rightarrow> flow" where
  "tick_flow e m k = fst (waitTick e m k \<lparr>files = Map.empty, trace = []\<rparr>)"

definition tick_events :: "env \<Rightarrow> ServiceManager \<Rightarrow> nat \<Rightarrow> event list" where
  "tick_events e m k = trace (snd (waitTick e m k \<lparr>files = Map.empty, trace = []\<rparr>))"

text \<open>The events of the ticks \<open>n + 1\<close>, ..., \<open>n + N\<close>.\<close>

definition retry_events :: "env \<Rightarrow> ServiceManager \<Rightarrow> nat \<Rightarrow> nat \<Rightarrow> event list" where
  "retry_events e m n N = concat (map (tick_events e m) [Suc n..<Suc (n + N)])"

subsection \<open>Sample inputs\<close>

text \<open>
  An environment in which every write, start and stop succeeds, the running sentinel is
  \<open>running\<close>, and the answers on each tick are given by \<open>st\<close> and \<open>pr\<close>.
\<close>

definition sample_env :: "(nat \<Rightarrow> error + string) \<Rightarrow> (nat \<Rightarrow> error + response) \<Rightarrow> env" where
  "sample_env st pr =
     \<lparr>write_file_fails = (\<lambda>p. None),
      monit_start = (\<lambda>s. None),
      monit_stop = (\<lambda>s. None),
      monit_status = (\<lambda>k s. st k),
      http_get = (\<lambda>k u. pr k),
      ServiceRunning = ''running''\<rparr>"

definition always_running :: "nat \<Rightarrow> error + string" where
  "always_running k = Inr ''running''"

text \<open>The GET fails on the first \<open>N\<close> ticks and is answered with \<open>a\<close> from then on.\<close>

definition refused_then :: "nat \<Rightarrow> error + response \<Rightarrow> nat \<Rightarrow> error + response" where
  "refused_then N a k = (if k \<le> N then Inl (New ''connection refused'') else a)"

text \<open>The status is \<open>running\<close> on the first \<open>N\<close> ticks and \<open>a\<close> from then on.\<close>

definition running_then :: "nat \<Rightarrow> error + string \<Rightarrow> nat \<Rightarrow> error + string" where
  "running_then N a k = (if k \<le> N then Inr ''running'' else a)"

definition always_refused :: "nat \<Rightarrow> error + response" where
  "always_refused k = Inl (New ''connection refused'')"

text \<open>The same environment with every write failing, and with every start and stop failing.\<close>

definition disk_full :: "env \<Rightarrow> env" where
  "disk_full e = e\<lparr>write_file_fails := (\<lambda>p. Some (New ''no space left on device'', None))\<rparr>"

definition monit_down :: "env \<Rightarrow> env" where
  "monit_down e =
     e\<lparr>monit_start := (\<lambda>s. Some (New ''monit unreachable'')),
       monit_stop := (\<lambda>s. Some (New ''monit unreachable''))\<rparr>"

definition http_200 :: response where
  "http_200 = \<lparr>Status = ''200 OK'', StatusCode = 200\<rparr>"

definition http_503 :: response where
  "http_503 = \<lparr>Status = ''503 Service Unavailable'', StatusCode = 503\<rparr>"

definition mysql :: ServiceManager where
  "mysql = \<lparr>ServiceName = ''mysql'', StateFilePath = ''/var/vcap/store/mysql/state.txt'',
     GaleraInitAddress = ''localhost:8114''\<rparr>"

definition garbd :: ServiceManager where
  "garbd = \<lparr>ServiceName = ''garbd'', StateFilePath = ''/var/vcap/store/garbd/state.txt'',
     GaleraInitAddress = ''localhost:8114''\<rparr>"

definition fresh :: world where
  "fresh = \<lparr>files = Map.empty, trace = []\<rparr>"

section \<open>Properties\<close>

subsection \<open>One pass of the loop\<close>

lemma count_ev_simps [simp]:
  "count_ev P [] = 0"
  "count_ev P (x # xs) = (if P x then Suc (count_ev P xs) else count_ev P xs)"
  "count_ev P (xs @ ys) = count_ev P xs + count_ev P ys"
  by (simp_all add: count_ev_def)

lemma waitTick_world:
  "waitTick e m k w = (tick_flow e m k, w\<lparr>trace := trace w @ tick_events e m k\<rparr>)"
  by (simp add: waitTick_def tick_flow_def tick_events_def MonitClient_Status_def
      httpClient_Get_def emit_def Let_def split: sum.splits)

lemma tick_status_error:
  assumes "status_at e m k = Inl err"
  shows "tick_flow e m k = Return (Some (StatusQueryFailed (ServiceName m)))"
    and "tick_events e m k = [TickerC k, MonitStatus (ServiceName m)]"
  using assms
  by (simp_all add: waitTick_def tick_flow_def tick_events_def MonitClient_Status_def
      status_at_def StatusQueryFailed_def emit_def)

lemma tick_not_running:
  assumes "status_at e m k = Inr s" and "s \<noteq> ServiceRunning e"
  shows "tick_flow e m k = Return (Some ProcessNotRunning)"
    and "tick_events e m k = [TickerC k, MonitStatus (ServiceName m),
           LogInfo ''check-monit-state'' [(''service'', ServiceName m), (''state'', s)]]"
  using assms
  by (simp_all add: waitTick_def tick_flow_def tick_events_def MonitClient_Status_def
      status_at_def ProcessNotRunning_def emit_def)

lemma tick_probe_error:
  assumes "status_at e m k = Inr (ServiceRunning e)" and "probe_at e m k = Inl err"
  shows "tick_flow e m k = Continue"
    and "tick_events e m k = [TickerC k, MonitStatus (ServiceName m),
           LogInfo ''check-monit-state''
             [(''service'', ServiceName m), (''state'', ServiceRunning e)],
           LogInfo ''check-galera-init'' [],
           HttpGet (''http://'' @ GaleraInitAddress m),
           LogError ''check-galera-init'' err]"
  using assms
  by (simp_all add: waitTick_def tick_flow_def tick_events_def MonitClient_Status_def
      httpClient_Get_def status_at_def probe_at_def emit_def)

lemma tick_response:
  assumes "status_at e m k = Inr (ServiceRunning e)" and "probe_at e m k = Inr res"
  shows "tick_flow e m k =
           Return (if StatusCode res = 200 then None else Some (ReadinessRejected (Status res)))"
    and "tick_events e m k = [TickerC k, MonitStatus (ServiceName m),
           LogInfo ''check-monit-state''
             [(''service'', ServiceName m), (''state'', ServiceRunning e)],
           LogInfo ''check-galera-init'' [],
           HttpGet (''http://'' @ GaleraInitAddress m),
           LogInfo ''check-galera-init'' [(''status'', Status res)]]"
  using assms
  by (simp_all add: waitTick_def tick_flow_def tick_events_def MonitClient_Status_def
      httpClient_Get_def status_at_def probe_at_def emit_def StatusOK_def
      ReadinessRejected_def Let_def)

lemma tick_flow_Continue: "tick_flow e m k = Continue \<longleftrightarrow> retrying e m k"
proof (cases "status_at e m k")
  case (Inl err)
  then show ?thesis by (simp add: tick_status_error(1) retrying_def)
next
  case (Inr s)
  show ?thesis
  proof (cases "s = ServiceRunning e")
    case False
    with Inr show ?thesis by (simp add: tick_not_running(1) retrying_def)
  next
    case True
    with Inr show ?thesis
      by (cases "probe_at e m k") (simp_all add: tick_probe_error(1) tick_response(1) retrying_def)
  qed
qed

lemma waitLoop_step:
  "waitLoop e m n w =
     (case tick_flow e m (Suc n) of
        Continue \<Rightarrow> waitLoop e m (Suc n) (w\<lparr>trace := trace w @ tick_events e m (Suc n)\<rparr>)
      | Return r \<Rightarrow> Some (r, w\<lparr>trace := trace w @ tick_events e m (Suc n)\<rparr>))"
  by (subst waitLoop.simps) (simp add: waitTick_world split: flow.splits)

lemma retry_events_0: "retry_events e m n 0 = []"
  by (simp add: retry_events_def)

lemma retry_events_Suc:
  "retry_events e m n (Suc N) = tick_events e m (Suc n) @ retry_events e m (Suc n) N"
  by (simp add: retry_events_def upt_conv_Cons del: upt_Suc)

lemma retry_events_snoc:
  "retry_events e m n (Suc N) = retry_events e m n N @ tick_events e m (Suc (n + N))"
  by (simp add: retry_events_def)

lemma waitLoop_retry:
  "(\<And>k. n < k \<Longrightarrow> k \<le> n + N \<Longrightarrow> retrying e m k) \<Longrightarrow>
   waitLoop e m n w = waitLoop e m (n + N) (w\<lparr>trace := trace w @ retry_events e m n N\<rparr>)"
proof (induction N arbitrary: n w)
  case 0
  show ?case by (simp add: retry_events_0)
next
  case (Suc N)
  have "retrying e m (Suc n)" using Suc.prems by simp
  then have c: "tick_flow e m (Suc n) = Continue" by (simp add: tick_flow_Continue)
  have "waitLoop e m n w
      = waitLoop e m (Suc n) (w\<lparr>trace := trace w @ tick_events e m (Suc n)\<rparr>)"
    by (subst waitLoop_step) (simp add: c)
  also have "\<dots> = waitLoop e m (Suc n + N)
      ((w\<lparr>trace := trace w @ tick_events e m (Suc n)\<rparr>)
         \<lparr>trace := trace (w\<lparr>trace := trace w @ tick_events e m (Suc n)\<rparr>)
            @ retry_events e m (Suc n) N\<rparr>)"
    by (rule Suc.IH) (use Suc.prems in simp)
  finally show ?case by (simp add: retry_events_Suc)
qed

lemma waitLoop_first_return:
  assumes "\<And>k. n < k \<Longrightarrow> k \<le> n + N \<Longrightarrow> retrying e m k"
    and "tick_flow e m (Suc (n + N)) = Return r"
  shows "waitLoop e m n w =
           Some (r, w\<lparr>trace := trace w @ retry_events e m n (Suc N)\<rparr>)"
proof -
  have "waitLoop e m n w = waitLoop e m (n + N) (w\<lparr>trace := trace w @ retry_events e m n N\<rparr>)"
    using assms(1) by (rule waitLoop_retry)
  also have "\<dots> = Some (r, w\<lparr>trace := trace w @ retry_events e m n (Suc N)\<rparr>)"
    by (subst waitLoop_step) (simp add: assms(2) retry_events_snoc)
  finally show ?thesis .
qed

text \<open>
  Conversely, a wait that returns has gone through a number of retried ticks and then
  one pass that ended with \<^verbatim>\<open>return\<close>.
\<close>

lemma waitLoop_Some_first_return:
  assumes "waitLoop e m n w = Some y"
  shows "\<exists>N. (\<forall>k. n < k \<and> k \<le> n + N \<longrightarrow> retrying e m k) \<and>
             tick_flow e m (Suc (n + N)) = Return (fst y) \<and>
             snd y = w\<lparr>trace := trace w @ retry_events e m n (Suc N)\<rparr>"
proof (rule waitLoop.raw_induct[where P = "\<lambda>e m n w y.
         \<exists>N. (\<forall>k. n < k \<and> k \<le> n + N \<longrightarrow> retrying e m k) \<and>
             tick_flow e m (Suc (n + N)) = Return (fst y) \<and>
             snd y = w\<lparr>trace := trace w @ retry_events e m n (Suc N)\<rparr>", OF _ assms])
  fix f e m n w y
  assume IH: "\<And>e m n w y. f e m n w = Some y \<Longrightarrow>
         \<exists>N. (\<forall>k. n < k \<and> k \<le> n + N \<longrightarrow> retrying e m k) \<and>
             tick_flow e m (Suc (n + N)) = Return (fst y) \<and>
             snd y = w\<lparr>trace := trace w @ retry_events e m n (Suc N)\<rparr>"
    and step: "(case waitTick e m (Suc n) w of
                  (Continue, w') \<Rightarrow> f e m (Suc n) w'
                | (Return r, w') \<Rightarrow> Some (r, w')) = Some y"
  show "\<exists>N. (\<forall>k. n < k \<and> k \<le> n + N \<longrightarrow> retrying e m k) \<and>
             tick_flow e m (Suc (n + N)) = Return (fst y) \<and>
             snd y = w\<lparr>trace := trace w @ retry_events e m n (Suc N)\<rparr>"
  proof (cases "tick_flow e m (Suc n)")
    case Continue
    then have r: "retrying e m (Suc n)" by (simp add: tick_flow_Continue)
    from step Continue
    have "f e m (Suc n) (w\<lparr>trace := trace w @ tick_events e m (Suc n)\<rparr>) = Some y"
      by (simp add: waitTick_world)
    from IH[OF this] obtain N where
      N: "\<forall>k. Suc n < k \<and> k \<le> Suc n + N \<longrightarrow> retrying e m k"
         "tick_flow e m (Suc (Suc n + N)) = Return (fst y)"
         "snd y = (w\<lparr>trace := trace w @ tick_events e m (Suc n)\<rparr>)
            \<lparr>trace := trace (w\<lparr>trace := trace w @ tick_events e m (Suc n)\<rparr>)
               @ retry_events e m (Suc n) (Suc N)\<rparr>"
      by blast
    have "\<forall>k. n < k \<and> k \<le> n + Suc N \<longrightarrow> retrying e m k"
    proof (intro allI impI)
      fix k assume "n < k \<and> k \<le> n + Suc N"
      then have "k = Suc n \<or> (Suc n < k \<and> k \<le> Suc n + N)" by arith
      then show "retrying e m k" using r N(1) by blast
    qed
    moreover have "tick_flow e m (Suc (n + Suc N)) = Return (fst y)" using N(2) by simp
    moreover have "snd y = w\<lparr>trace := trace w @ retry_events e m n (Suc (Suc N))\<rparr>"
      using N(3) by (simp add: retry_events_Suc[of e m n "Suc N"])
    ultimately show ?thesis by blast
  next
    case (Return r)
    with step have "y = (r, w\<lparr>trace := trace w @ tick_events e m (Suc n)\<rparr>)"
      by (simp add: waitTick_world)
    with Return have "(\<forall>k. n < k \<and> k \<le> n + 0 \<longrightarrow> retrying e m k) \<and>
        tick_flow e m (Suc (n + 0)) = Return (fst y) \<and>
        snd y = w\<lparr>trace := trace w @ retry_events e m n (Suc 0)\<rparr>"
      by (auto simp: retry_events_Suc retry_events_0)
    then show ?thesis by (rule exI[of _ 0])
  qed
qed

lemma tick_events_shape:
  "\<exists>d. tick_events e m k = TickerC k # MonitStatus (ServiceName m) # d \<and>
       count_ev is_TickerC d = 0 \<and> count_ev is_MonitStatus d = 0 \<and>
       count_ev is_HttpGet d \<le> 1 \<and> count_ev is_WriteFile d = 0 \<and>
       count_ev is_MonitStart d = 0 \<and> count_ev is_MonitStop d = 0"
proof (cases "status_at e m k")
  case (Inl err)
  then show ?thesis by (simp add: tick_status_error(2))
next
  case (Inr s)
  show ?thesis
  proof (cases "s = ServiceRunning e")
    case False
    with Inr show ?thesis by (simp add: tick_not_running(2))
  next
    case True
    with Inr show ?thesis
      by (cases "probe_at e m k") (simp_all add: tick_probe_error(2) tick_response(2))
  qed
qed

lemma tick_events_count:
  "count_ev is_TickerC (tick_events e m k) = 1"
  "count_ev is_MonitStatus (tick_events e m k) = 1"
  "count_ev is_WriteFile (tick_events e m k) = 0"
  "count_ev is_MonitStart (tick_events e m k) = 0"
  "count_ev is_MonitStop (tick_events e m k) = 0"
  using tick_events_shape[of e m k] by auto

lemma tick_events_count_retrying:
  assumes "retrying e m k"
  shows "count_ev is_HttpGet (tick_events e m k) = 1"
    and "count_ev is_LogError (tick_events e m k) = 1"
proof -
  from assms obtain err where "status_at e m k = Inr (ServiceRunning e)" "probe_at e m k = Inl err"
    by (cases "probe_at e m k") (auto simp: retrying_def)
  then have "tick_events e m k = [TickerC k, MonitStatus (ServiceName m),
           LogInfo ''check-monit-state''
             [(''service'', ServiceName m), (''state'', ServiceRunning e)],
           LogInfo ''check-galera-init'' [],
           HttpGet (''http://'' @ GaleraInitAddress m),
           LogError ''check-galera-init'' err]"
    by (rule tick_probe_error(2))
  then show "count_ev is_HttpGet (tick_events e m k) = 1"
    and "count_ev is_LogError (tick_events e m k) = 1" by simp_all
qed

lemma retry_events_count:
  "count_ev is_TickerC (retry_events e m n N) = N"
  "count_ev is_MonitStatus (retry_events e m n N) = N"
  "count_ev is_WriteFile (retry_events e m n N) = 0"
  "count_ev is_MonitStart (retry_events e m n N) = 0"
  "count_ev is_MonitStop (retry_events e m n N) = 0"
  by (induction N) (simp_all add: retry_events_0 retry_events_snoc tick_events_count)

lemma retry_events_count_retrying:
  assumes "\<And>k. n < k \<Longrightarrow> k \<le> n + N \<Longrightarrow> retrying e m k"
  shows "count_ev is_HttpGet (retry_events e m n N) = N"
    and "count_ev is_LogError (retry_events e m n N) = N"
  using assms
  by (induction N) (simp_all add: retry_events_0 retry_events_snoc tick_events_count_retrying)

lemma start_service_unfold:
  assumes "\<not> arbitrator_bootstrap i m"
  shows "start_service i e m w =
     (case write_file_fails e (StateFilePath m) of
        Some (err, left) \<Rightarrow>
          Some (Inl (PersistenceFailure err),
                w\<lparr>files := (files w)(StateFilePath m := left),
                  trace := trace w @ [WriteFile (StateFilePath m) (marker i)]\<rparr>)
      | None \<Rightarrow>
          (case monit_start e (ServiceName m) of
             Some err \<Rightarrow> Some (Inl err, started i m w)
           | None \<Rightarrow>
               (case waitForGaleraInit e m (started i m w) of
                  None \<Rightarrow> None
                | Some (Some err, w3) \<Rightarrow> Some (Inl err, w3)
                | Some (None, w3) \<Rightarrow> Some (Inr (success_message i), w3))))"
  using assms
  by (cases i)
    (simp_all add: start_service_def arbitrator_bootstrap_def StartServiceBootstrap_def
      StartServiceJoin_def StartServiceSingleNode_def ioutil_WriteFile_def
      MonitClient_Start_def emit_def marker_def success_message_def PersistenceFailure_def
      started_def Let_def split: option.splits prod.splits)

subsection \<open>The wait as a whole\<close>

lemma decisive_iff: "decisive e m k \<longleftrightarrow> \<not> retrying e m k"
  by (auto simp: decisive_def retrying_def split: sum.splits)

lemma wait_returns:
  assumes "\<forall>k\<in>{1..N}. retrying e m k"
    and "tick_flow e m (Suc N) = Return r"
  shows "waitForGaleraInit e m w =
           Some (r, w\<lparr>trace := trace w @ retry_events e m 0 N @ tick_events e m (Suc N)\<rparr>)"
proof -
  have "\<And>k. 0 < k \<Longrightarrow> k \<le> 0 + N \<Longrightarrow> retrying e m k"
    using assms(1) by simp
  moreover have "tick_flow e m (Suc (0 + N)) = Return r"
    using assms(2) by simp
  ultimately have "waitLoop e m 0 w =
      Some (r, w\<lparr>trace := trace w @ retry_events e m 0 (Suc N)\<rparr>)"
    by (rule waitLoop_first_return)
  then show ?thesis
    by (simp add: waitForGaleraInit_def retry_events_snoc)
qed

lemma wait_Some_D:
  assumes "waitForGaleraInit e m w = Some (r, w')"
  shows "\<exists>N. (\<forall>k\<in>{1..N}. retrying e m k) \<and> tick_flow e m (Suc N) = Return r \<and>
             w' = w\<lparr>trace := trace w @ retry_events e m 0 (Suc N)\<rparr>"
proof -
  from assms have "waitLoop e m 0 w = Some (r, w')"
    by (simp add: waitForGaleraInit_def)
  from waitLoop_Some_first_return[OF this] obtain N where
    "\<forall>k. 0 < k \<and> k \<le> 0 + N \<longrightarrow> retrying e m k"
    "tick_flow e m (Suc (0 + N)) = Return r"
    "w' = w\<lparr>trace := trace w @ retry_events e m 0 (Suc N)\<rparr>"
    by auto
  then have "(\<forall>k\<in>{1..N}. retrying e m k) \<and> tick_flow e m (Suc N) = Return r \<and>
      w' = w\<lparr>trace := trace w @ retry_events e m 0 (Suc N)\<rparr>"
    by simp
  then show ?thesis ..
qed

lemma wait_never_returns:
  assumes "\<forall>k\<ge>1. retrying e m k"
  shows "waitForGaleraInit e m w = None"
proof (cases "waitForGaleraInit e m w")
  case None
  then show ?thesis .
next
  case (Some y)
  then have "waitForGaleraInit e m w = Some (fst y, snd y)" by simp
  from wait_Some_D[OF this] obtain N where "tick_flow e m (Suc N) = Return (fst y)"
    by blast
  moreover have "retrying e m (Suc N)" using assms by simp
  then have "tick_flow e m (Suc N) = Continue" by (simp add: tick_flow_Continue)
  ultimately show ?thesis by simp
qed

text \<open>The wait leaves the files alone and calls neither the write nor the start.\<close>

lemma wait_frame:
  assumes "waitForGaleraInit e m w = Some (r, w')"
  shows "\<exists>d. w' = w\<lparr>trace := trace w @ d\<rparr> \<and> count_ev is_WriteFile d = 0 \<and>
             count_ev is_MonitStart d = 0 \<and> count_ev is_MonitStop d = 0"
proof -
  from wait_Some_D[OF assms] obtain N where
    "w' = w\<lparr>trace := trace w @ retry_events e m 0 (Suc N)\<rparr>" by blast
  then have "w' = w\<lparr>trace := trace w @ retry_events e m 0 (Suc N)\<rparr> \<and>
      count_ev is_WriteFile (retry_events e m 0 (Suc N)) = 0 \<and>
      count_ev is_MonitStart (retry_events e m 0 (Suc N)) = 0 \<and>
      count_ev is_MonitStop (retry_events e m 0 (Suc N)) = 0"
    by (simp add: retry_events_count)
  then show ?thesis ..
qed

subsection \<open>The start operations\<close>

lemma start_service_arbitrator:
  assumes "arbitrator_bootstrap i m"
  shows "start_service i e m w = Some (Inl InvalidIntent, w)"
  using assms
  by (simp add: arbitrator_bootstrap_def start_service_def StartServiceBootstrap_def
      InvalidIntent_def)

lemma start_service_None_iff:
  assumes "\<not> arbitrator_bootstrap i m"
  shows "start_service i e m w = None \<longleftrightarrow>
           write_file_fails e (StateFilePath m) = None \<and>
           monit_start e (ServiceName m) = None \<and>
           waitForGaleraInit e m (started i m w) = None"
  by (simp add: start_service_unfold[OF assms] split: option.splits prod.splits)

lemma start_service_success_iff:
  assumes "\<not> arbitrator_bootstrap i m"
  shows "start_service i e m w = Some (Inr s, w') \<longleftrightarrow>
           s = success_message i \<and>
           write_file_fails e (StateFilePath m) = None \<and>
           monit_start e (ServiceName m) = None \<and>
           waitForGaleraInit e m (started i m w) = Some (None, w')"
  by (auto simp: start_service_unfold[OF assms] split: option.splits prod.splits)

lemma start_service_trace:
  assumes na: "\<not> arbitrator_bootstrap i m"
    and res: "start_service i e m w = Some (r, w')"
  shows "\<exists>d. trace w' = trace w @ WriteFile (StateFilePath m) (marker i) # d \<and>
             count_ev is_WriteFile d = 0 \<and> count_ev is_MonitStart d \<le> 1 \<and>
             count_ev is_MonitStop d = 0 \<and>
             (write_file_fails e (StateFilePath m) \<noteq> None \<longrightarrow> d = []) \<and>
             (write_file_fails e (StateFilePath m) = None \<longrightarrow>
                files w' = (files w)(StateFilePath m \<mapsto> marker i))"
proof (cases "write_file_fails e (StateFilePath m)")
  case (Some a)
  with res show ?thesis
    by (cases a) (auto simp: start_service_unfold[OF na])
next
  case None
  note wr = this
  show ?thesis
  proof (cases "monit_start e (ServiceName m)")
    case (Some err)
    with wr res show ?thesis
      by (auto simp: start_service_unfold[OF na] started_def)
  next
    case None
    with wr res obtain r' where "waitForGaleraInit e m (started i m w) = Some (r', w')"
      by (auto simp: start_service_unfold[OF na] split: option.splits prod.splits)
    from wait_frame[OF this] obtain d where
      d: "w' = (started i m w)\<lparr>trace := trace (started i m w) @ d\<rparr>"
         "count_ev is_WriteFile d = 0" "count_ev is_MonitStart d = 0"
         "count_ev is_MonitStop d = 0"
      by blast
    have "trace w' = trace w @
        WriteFile (StateFilePath m) (marker i) # (MonitStart (ServiceName m) # d)"
      using d(1) by (simp add: started_def)
    moreover have "files w' = (files w)(StateFilePath m \<mapsto> marker i)"
      using d(1) by (simp add: started_def)
    moreover have "count_ev is_WriteFile (MonitStart (ServiceName m) # d) = 0"
      "count_ev is_MonitStart (MonitStart (ServiceName m) # d) \<le> 1"
      "count_ev is_MonitStop (MonitStart (ServiceName m) # d) = 0"
      using d(2-4) by simp_all
    ultimately show ?thesis using wr by blast
  qed
qed

section \<open>The claims\<close>

subsection \<open>A worked scenario\<close>

text \<open>
  The scenario of the specification, run step by step: service \<open>mysql\<close>, intent Join,
  the status is \<open>running\<close> on both ticks, the GET fails on the first tick and is answered
  with 200 on the second.
\<close>

lemma join_scenario:
  "StartServiceJoin (sample_env always_running (refused_then 1 (Inr http_200))) mysql fresh =
     Some (Inr ''join cluster successful'',
       \<lparr>files = [''/var/vcap/store/mysql/state.txt'' \<mapsto> ''CLUSTERED''],
        trace =
          [WriteFile ''/var/vcap/store/mysql/state.txt'' ''CLUSTERED'',
           MonitStart ''mysql'',
           TickerC 1,
           MonitStatus ''mysql'',
           LogInfo ''check-monit-state'' [(''service'', ''mysql''), (''state'', ''running'')],
           LogInfo ''check-galera-init'' [],
           HttpGet ''http://localhost:8114'',
           LogError ''check-galera-init'' (New ''connection refused''),
           TickerC 2,
           MonitStatus ''mysql'',
           LogInfo ''check-monit-state'' [(''service'', ''mysql''), (''state'', ''running'')],
           LogInfo ''check-galera-init'' [],
           HttpGet ''http://localhost:8114'',
           LogInfo ''check-galera-init'' [(''status'', ''200 OK'')]]\<rparr>)"
  by (simp add: StartServiceJoin_def ioutil_WriteFile_def MonitClient_Start_def
      waitForGaleraInit_def waitLoop.simps[of _ _ 0] waitLoop.simps[of _ _ "Suc 0"]
      waitTick_def MonitClient_Status_def httpClient_Get_def emit_def sample_env_def
      always_running_def refused_then_def http_200_def mysql_def fresh_def StatusOK_def)

subsection \<open>The readiness wait\<close>

text \<open>
  Claim C1. A connection error of the GET does not end the wait: the pass logs the error
  and the loop goes on to the next tick. So, for every \<open>N\<close>, when the status is the running
  sentinel on every tick, the GET fails on the ticks 1 to \<open>N\<close> and is answered with 200 on
  the tick \<open>N + 1\<close>, the wait returns \<^verbatim>\<open>nil\<close> after exactly \<open>N + 1\<close> ticks (with \<open>N + 1\<close> GETs
  and \<open>N\<close> logged errors), and every start operation whose write and start succeed returns
  the success message of its intent.
\<close>

theorem connection_error_is_retried:
  assumes "\<forall>k\<in>{1..N}. retrying e m k"
    and "status_at e m (Suc N) = Inr (ServiceRunning e)"
    and "probe_at e m (Suc N) = Inr res"
    and "StatusCode res = 200"
  shows "(\<exists>d. waitForGaleraInit e m w = Some (None, w\<lparr>trace := trace w @ d\<rparr>) \<and>
              count_ev is_TickerC d = Suc N \<and> count_ev is_HttpGet d = Suc N \<and>
              count_ev is_LogError d = N) \<and>
         (\<forall>i. \<not> arbitrator_bootstrap i m \<and> write_file_fails e (StateFilePath m) = None \<and>
               monit_start e (ServiceName m) = None \<longrightarrow>
               (\<exists>d. start_service i e m w =
                       Some (Inr (success_message i),
                             (started i m w)\<lparr>trace := trace (started i m w) @ d\<rparr>) \<and>
                     count_ev is_TickerC d = Suc N)) \<and>
         (\<forall>n w1 err. status_at e m (Suc n) = Inr (ServiceRunning e) \<and>
               probe_at e m (Suc n) = Inl err \<longrightarrow>
               (\<exists>d. waitLoop e m n w1 =
                       waitLoop e m (Suc n)
                         (w1\<lparr>trace := trace w1 @ d @ [LogError ''check-galera-init'' err]\<rparr>) \<and>
                     count_ev is_TickerC d = 1))"
proof (intro conjI allI impI)
  have flow: "tick_flow e m (Suc N) = Return None"
    using assms(2-4) by (simp add: tick_response(1))
  have last: "count_ev is_TickerC (tick_events e m (Suc N)) = 1"
    "count_ev is_HttpGet (tick_events e m (Suc N)) = 1"
    "count_ev is_LogError (tick_events e m (Suc N)) = 0"
    using assms(2,3) by (simp_all add: tick_response(2))
  have pre: "\<And>k. 0 < k \<Longrightarrow> k \<le> 0 + N \<Longrightarrow> retrying e m k"
    using assms(1) by simp
  have counts: "count_ev is_TickerC (retry_events e m 0 N @ tick_events e m (Suc N)) = Suc N"
    "count_ev is_HttpGet (retry_events e m 0 N @ tick_events e m (Suc N)) = Suc N"
    "count_ev is_LogError (retry_events e m 0 N @ tick_events e m (Suc N)) = N"
    using last by (simp_all add: retry_events_count retry_events_count_retrying[OF pre])
  have ret: "\<And>w0. waitForGaleraInit e m w0 =
      Some (None, w0\<lparr>trace := trace w0 @ retry_events e m 0 N @ tick_events e m (Suc N)\<rparr>)"
    using assms(1) flow by (rule wait_returns)
  show "\<exists>d. waitForGaleraInit e m w = Some (None, w\<lparr>trace := trace w @ d\<rparr>) \<and>
            count_ev is_TickerC d = Suc N \<and> count_ev is_HttpGet d = Suc N \<and>
            count_ev is_LogError d = N"
    using ret[of w] counts by blast
  show "\<exists>d. start_service i e m w =
              Some (Inr (success_message i),
                    (started i m w)\<lparr>trace := trace (started i m w) @ d\<rparr>) \<and>
            count_ev is_TickerC d = Suc N"
    if h: "\<not> arbitrator_bootstrap i m \<and> write_file_fails e (StateFilePath m) = None \<and>
           monit_start e (ServiceName m) = None" for i
  proof -
    have "start_service i e m w =
        Some (Inr (success_message i),
              (started i m w)\<lparr>trace := trace (started i m w) @
                 retry_events e m 0 N @ tick_events e m (Suc N)\<rparr>)"
      using h ret[of "started i m w"] by (simp add: start_service_unfold)
    with counts(1) show ?thesis by blast
  qed
  show "\<exists>d. waitLoop e m n w1 =
              waitLoop e m (Suc n)
                (w1\<lparr>trace := trace w1 @ d @ [LogError ''check-galera-init'' err]\<rparr>) \<and>
            count_ev is_TickerC d = 1"
    if h: "status_at e m (Suc n) = Inr (ServiceRunning e) \<and> probe_at e m (Suc n) = Inl err"
    for n w1 err
  proof -
    from h have st: "status_at e m (Suc n) = Inr (ServiceRunning e)"
      and pr: "probe_at e m (Suc n) = Inl err" by simp_all
    have "waitLoop e m n w1 =
        waitLoop e m (Suc n)
          (w1\<lparr>trace := trace w1 @
             [TickerC (Suc n), MonitStatus (ServiceName m),
              LogInfo ''check-monit-state''
                [(''service'', ServiceName m), (''state'', ServiceRunning e)],
              LogInfo ''check-galera-init'' [],
              HttpGet (''http://'' @ GaleraInitAddress m)] @
             [LogError ''check-galera-init'' err]\<rparr>)"
      by (subst waitLoop_step) (simp add: tick_probe_error[OF st pr])
    moreover have "count_ev is_TickerC
        [TickerC (Suc n), MonitStatus (ServiceName m),
         LogInfo ''check-monit-state''
           [(''service'', ServiceName m), (''state'', ServiceRunning e)],
         LogInfo ''check-galera-init'' [],
         HttpGet (''http://'' @ GaleraInitAddress m)] = 1"
      by simp
    ultimately show ?thesis by blast
  qed
qed

theorem connection_error_is_retried_witness:
  "retrying (sample_env always_running (refused_then 1 (Inr http_200))) mysql 1 \<and>
   status_at (sample_env always_running (refused_then 1 (Inr http_200))) mysql 2 =
     Inr (ServiceRunning (sample_env always_running (refused_then 1 (Inr http_200)))) \<and>
   probe_at (sample_env always_running (refused_then 1 (Inr http_200))) mysql 2 = Inr http_200 \<and>
   StatusCode http_200 = 200 \<and>
   (\<exists>d. waitForGaleraInit (sample_env always_running (refused_then 1 (Inr http_200)))
           mysql fresh = Some (None, fresh\<lparr>trace := trace fresh @ d\<rparr>) \<and>
        count_ev is_TickerC d = 2) \<and>
   (\<exists>w'. StartServiceJoin (sample_env always_running (refused_then 1 (Inr http_200)))
           mysql fresh = Some (Inr ''join cluster successful'', w'))"
proof -
  let ?e = "sample_env always_running (refused_then 1 (Inr http_200))"
  have h1: "\<forall>k\<in>{1..1}. retrying ?e mysql k"
    by (simp add: retrying_def status_at_def probe_at_def sample_env_def always_running_def
        refused_then_def)
  have h2: "status_at ?e mysql (Suc 1) = Inr (ServiceRunning ?e)"
    by (simp add: status_at_def sample_env_def always_running_def)
  have h3: "probe_at ?e mysql (Suc 1) = Inr http_200"
    by (simp add: probe_at_def sample_env_def refused_then_def)
  have h4: "StatusCode http_200 = 200"
    by (simp add: http_200_def)
  note inst = connection_error_is_retried[OF h1 h2 h3 h4, of fresh]
  from inst have a: "\<exists>d. waitForGaleraInit ?e mysql fresh =
      Some (None, fresh\<lparr>trace := trace fresh @ d\<rparr>) \<and> count_ev is_TickerC d = 2"
    by auto
  have "\<not> arbitrator_bootstrap Join mysql \<and> write_file_fails ?e (StateFilePath mysql) = None \<and>
      monit_start ?e (ServiceName mysql) = None"
    by (simp add: arbitrator_bootstrap_def sample_env_def)
  with inst have "\<exists>d. start_service Join ?e mysql fresh =
      Some (Inr (success_message Join),
            (started Join mysql fresh)\<lparr>trace := trace (started Join mysql fresh) @ d\<rparr>) \<and>
      count_ev is_TickerC d = Suc 1"
    by blast
  then have b: "\<exists>w'. StartServiceJoin ?e mysql fresh = Some (Inr ''join cluster successful'', w')"
    by (auto simp: start_service_def success_message_def)
  from h1 h2 h3 h4 a b show ?thesis by (simp add: numeral_2_eq_2)
qed

text \<open>
  Claim C2. Success is exactly a response with the status code 200. When the status is the
  running sentinel and the GET is answered on the tick \<open>N + 1\<close>, after \<open>N\<close> ticks on which
  the GET failed, the wait returns on that tick: \<^verbatim>\<open>nil\<close> when the status code is 200, and
  the error \<open>ReadinessRejected\<close> (carrying the status line) for every other code, 503
  among them, whatever \<open>N\<close> is.
\<close>

theorem readiness_response_is_final:
  assumes "\<forall>k\<in>{1..N}. retrying e m k"
    and "status_at e m (Suc N) = Inr (ServiceRunning e)"
    and "probe_at e m (Suc N) = Inr res"
  shows "\<exists>d. waitForGaleraInit e m w =
              Some (if StatusCode res = 200 then None
                    else Some (ReadinessRejected (Status res)),
                    w\<lparr>trace := trace w @ d\<rparr>) \<and>
            count_ev is_TickerC d = Suc N \<and> count_ev is_HttpGet d = Suc N"
proof -
  have flow: "tick_flow e m (Suc N) =
      Return (if StatusCode res = 200 then None else Some (ReadinessRejected (Status res)))"
    using assms(2,3) by (rule tick_response(1))
  have pre: "\<And>k. 0 < k \<Longrightarrow> k \<le> 0 + N \<Longrightarrow> retrying e m k"
    using assms(1) by simp
  have "count_ev is_HttpGet (tick_events e m (Suc N)) = 1"
    using assms(2,3) by (simp add: tick_response(2))
  then have counts:
    "count_ev is_TickerC (retry_events e m 0 N @ tick_events e m (Suc N)) = Suc N"
    "count_ev is_HttpGet (retry_events e m 0 N @ tick_events e m (Suc N)) = Suc N"
    by (simp_all add: retry_events_count tick_events_count retry_events_count_retrying[OF pre])
  have "waitForGaleraInit e m w =
      Some (if StatusCode res = 200 then None else Some (ReadinessRejected (Status res)),
            w\<lparr>trace := trace w @ retry_events e m 0 N @ tick_events e m (Suc N)\<rparr>)"
    using assms(1) flow by (rule wait_returns)
  with counts show ?thesis by blast
qed

theorem readiness_response_is_final_witness:
  "retrying (sample_env always_running (refused_then 2 (Inr http_503))) mysql 1 \<and>
   retrying (sample_env always_running (refused_then 2 (Inr http_503))) mysql 2 \<and>
   probe_at (sample_env always_running (refused_then 2 (Inr http_503))) mysql 3 = Inr http_503 \<and>
   (\<exists>d. waitForGaleraInit (sample_env always_running (refused_then 2 (Inr http_503)))
           mysql fresh =
           Some (Some (ReadinessRejected ''503 Service Unavailable''),
                 fresh\<lparr>trace := trace fresh @ d\<rparr>) \<and>
        count_ev is_TickerC d = 3)"
proof -
  let ?e = "sample_env always_running (refused_then 2 (Inr http_503))"
  have r: "retrying ?e mysql 1" "retrying ?e mysql 2"
    by (simp_all add: retrying_def status_at_def probe_at_def sample_env_def
        always_running_def refused_then_def)
  have h1: "\<forall>k\<in>{1..2}. retrying ?e mysql k"
    by (simp add: retrying_def status_at_def probe_at_def sample_env_def always_running_def
        refused_then_def)
  have h2: "status_at ?e mysql (Suc 2) = Inr (ServiceRunning ?e)"
    by (simp add: status_at_def sample_env_def always_running_def)
  have h3: "probe_at ?e mysql (Suc 2) = Inr http_503"
    by (simp add: probe_at_def sample_env_def refused_then_def)
  from readiness_response_is_final[OF h1 h2 h3, of fresh]
  have "\<exists>d. waitForGaleraInit ?e mysql fresh =
      Some (Some (ReadinessRejected ''503 Service Unavailable''),
            fresh\<lparr>trace := trace fresh @ d\<rparr>) \<and> count_ev is_TickerC d = 3"
    by (auto simp: http_503_def)
  with r h3 show ?thesis by (simp add: eval_nat_numeral)
qed

text \<open>
  Claim C3. Every pass of the loop queries the supervisor first: the events of a tick
  begin with the receive from the ticker and the status query, and the GET, if there is
  one, comes after them. When the status on the tick \<open>N + 1\<close> is not the running sentinel
  (the \<open>N\<close> ticks before it were retried), the wait returns \<open>ProcessNotRunning\<close>: the trace
  ends with that tick's status query and its log line, with no GET on that tick and no
  tick after it.
\<close>

theorem not_running_ends_wait:
  "(\<forall>k w1. \<exists>d. snd (waitTick e m k w1) =
              w1\<lparr>trace := trace w1 @ TickerC k # MonitStatus (ServiceName m) # d\<rparr> \<and>
            count_ev is_MonitStatus d = 0 \<and> count_ev is_HttpGet d \<le> 1) \<and>
   ((\<forall>k\<in>{1..N}. retrying e m k) \<and> status_at e m (Suc N) = Inr s \<and> s \<noteq> ServiceRunning e \<longrightarrow>
      (\<exists>d. waitForGaleraInit e m w =
              Some (Some ProcessNotRunning,
                    w\<lparr>trace := trace w @ d @
                      [TickerC (Suc N), MonitStatus (ServiceName m),
                       LogInfo ''check-monit-state''
                         [(''service'', ServiceName m), (''state'', s)]]\<rparr>) \<and>
            count_ev is_TickerC d = N \<and> count_ev is_HttpGet d = N))"
proof (intro conjI allI impI)
  fix k w1
  from tick_events_shape[of e m k] obtain d where
    "tick_events e m k = TickerC k # MonitStatus (ServiceName m) # d"
    "count_ev is_MonitStatus d = 0" "count_ev is_HttpGet d \<le> 1"
    by blast
  then have "snd (waitTick e m k w1) =
      w1\<lparr>trace := trace w1 @ TickerC k # MonitStatus (ServiceName m) # d\<rparr> \<and>
      count_ev is_MonitStatus d = 0 \<and> count_ev is_HttpGet d \<le> 1"
    by (simp add: waitTick_world)
  then show "\<exists>d. snd (waitTick e m k w1) =
      w1\<lparr>trace := trace w1 @ TickerC k # MonitStatus (ServiceName m) # d\<rparr> \<and>
      count_ev is_MonitStatus d = 0 \<and> count_ev is_HttpGet d \<le> 1" ..
next
  assume h: "(\<forall>k\<in>{1..N}. retrying e m k) \<and> status_at e m (Suc N) = Inr s \<and>
    s \<noteq> ServiceRunning e"
  then have st: "status_at e m (Suc N) = Inr s" and ne: "s \<noteq> ServiceRunning e"
    and all: "\<forall>k\<in>{1..N}. retrying e m k" by simp_all
  have pre: "\<And>k. 0 < k \<Longrightarrow> k \<le> 0 + N \<Longrightarrow> retrying e m k"
    using all by simp
  have "waitForGaleraInit e m w =
      Some (Some ProcessNotRunning,
            w\<lparr>trace := trace w @ retry_events e m 0 N @ tick_events e m (Suc N)\<rparr>)"
    using all tick_not_running(1)[OF st ne] by (rule wait_returns)
  then have "waitForGaleraInit e m w =
      Some (Some ProcessNotRunning,
            w\<lparr>trace := trace w @ retry_events e m 0 N @
              [TickerC (Suc N), MonitStatus (ServiceName m),
               LogInfo ''check-monit-state''
                 [(''service'', ServiceName m), (''state'', s)]]\<rparr>)"
    by (simp add: tick_not_running(2)[OF st ne])
  moreover have "count_ev is_TickerC (retry_events e m 0 N) = N"
    by (simp add: retry_events_count)
  moreover have "count_ev is_HttpGet (retry_events e m 0 N) = N"
    using pre by (rule retry_events_count_retrying(1))
  ultimately show "\<exists>d. waitForGaleraInit e m w =
      Some (Some ProcessNotRunning,
            w\<lparr>trace := trace w @ d @
              [TickerC (Suc N), MonitStatus (ServiceName m),
               LogInfo ''check-monit-state''
                 [(''service'', ServiceName m), (''state'', s)]]\<rparr>) \<and>
      count_ev is_TickerC d = N \<and> count_ev is_HttpGet d = N"
    by blast
qed

theorem not_running_ends_wait_witness:
  "retrying (sample_env (running_then 1 (Inr ''stopped'')) always_refused) mysql 1 \<and>
   status_at (sample_env (running_then 1 (Inr ''stopped'')) always_refused) mysql 2 =
     Inr ''stopped'' \<and>
   ''stopped'' \<noteq> ServiceRunning (sample_env (running_then 1 (Inr ''stopped'')) always_refused) \<and>
   (\<exists>d. waitForGaleraInit (sample_env (running_then 1 (Inr ''stopped'')) always_refused)
           mysql fresh =
           Some (Some (New ''job failed during startup''),
                 fresh\<lparr>trace := trace fresh @ d @
                   [TickerC 2, MonitStatus ''mysql'',
                    LogInfo ''check-monit-state''
                      [(''service'', ''mysql''), (''state'', ''stopped'')]]\<rparr>) \<and>
        count_ev is_TickerC d = 1 \<and> count_ev is_HttpGet d = 1)"
proof -
  let ?e = "sample_env (running_then 1 (Inr ''stopped'')) always_refused"
  have r: "retrying ?e mysql 1"
    by (simp add: retrying_def status_at_def probe_at_def sample_env_def running_then_def
        always_refused_def)
  then have h1: "\<forall>k\<in>{1..1}. retrying ?e mysql k" by simp
  have h2: "status_at ?e mysql (Suc 1) = Inr ''stopped''"
    by (simp add: status_at_def sample_env_def running_then_def)
  have h3: "''stopped'' \<noteq> ServiceRunning ?e"
    by (simp add: sample_env_def)
  from not_running_ends_wait[of ?e mysql 1 "''stopped''" fresh] h1 h2 h3
  have "\<exists>d. waitForGaleraInit ?e mysql fresh =
      Some (Some ProcessNotRunning,
            fresh\<lparr>trace := trace fresh @ d @
              [TickerC (Suc 1), MonitStatus (ServiceName mysql),
               LogInfo ''check-monit-state''
                 [(''service'', ServiceName mysql), (''state'', ''stopped'')]]\<rparr>) \<and>
      count_ev is_TickerC d = 1 \<and> count_ev is_HttpGet d = 1"
    by blast
  then have "\<exists>d. waitForGaleraInit ?e mysql fresh =
      Some (Some (New ''job failed during startup''),
            fresh\<lparr>trace := trace fresh @ d @
              [TickerC 2, MonitStatus ''mysql'',
               LogInfo ''check-monit-state''
                 [(''service'', ''mysql''), (''state'', ''stopped'')]]\<rparr>) \<and>
      count_ev is_TickerC d = 1 \<and> count_ev is_HttpGet d = 1"
    by (simp add: ProcessNotRunning_def mysql_def numeral_2_eq_2)
  with r h2 h3 show ?thesis by (simp add: numeral_2_eq_2)
qed

text \<open>
  Claim C4. When the status query fails on the tick \<open>N + 1\<close> (the \<open>N\<close> ticks before it were
  retried), the wait returns \<open>StatusQueryFailed\<close> at once: the trace ends with that tick's
  status query, with no GET on that tick and no tick after it.
\<close>

theorem status_error_ends_wait:
  assumes "\<forall>k\<in>{1..N}. retrying e m k"
    and "status_at e m (Suc N) = Inl err"
  shows "\<exists>d. waitForGaleraInit e m w =
              Some (Some (StatusQueryFailed (ServiceName m)),
                    w\<lparr>trace := trace w @ d @
                      [TickerC (Suc N), MonitStatus (ServiceName m)]\<rparr>) \<and>
            count_ev is_TickerC d = N \<and> count_ev is_MonitStatus d = N \<and>
            count_ev is_HttpGet d = N"
proof -
  have pre: "\<And>k. 0 < k \<Longrightarrow> k \<le> 0 + N \<Longrightarrow> retrying e m k"
    using assms(1) by simp
  have "waitForGaleraInit e m w =
      Some (Some (StatusQueryFailed (ServiceName m)),
            w\<lparr>trace := trace w @ retry_events e m 0 N @ tick_events e m (Suc N)\<rparr>)"
    using assms(1) tick_status_error(1)[OF assms(2)] by (rule wait_returns)
  then have "waitForGaleraInit e m w =
      Some (Some (StatusQueryFailed (ServiceName m)),
            w\<lparr>trace := trace w @ retry_events e m 0 N @
              [TickerC (Suc N), MonitStatus (ServiceName m)]\<rparr>)"
    by (simp add: tick_status_error(2)[OF assms(2)])
  moreover have "count_ev is_TickerC (retry_events e m 0 N) = N"
    "count_ev is_MonitStatus (retry_events e m 0 N) = N"
    by (simp_all add: retry_events_count)
  moreover have "count_ev is_HttpGet (retry_events e m 0 N) = N"
    using pre by (rule retry_events_count_retrying(1))
  ultimately show ?thesis by blast
qed

theorem status_error_ends_wait_witness:
  "retrying (sample_env (running_then 1 (Inl (New ''monit unreachable''))) always_refused)
     mysql 1 \<and>
   status_at (sample_env (running_then 1 (Inl (New ''monit unreachable''))) always_refused)
     mysql 2 = Inl (New ''monit unreachable'') \<and>
   (\<exists>d. waitForGaleraInit
           (sample_env (running_then 1 (Inl (New ''monit unreachable''))) always_refused)
           mysql fresh =
           Some (Some (Errorf ''error fetching status for service %q'' ''mysql''),
                 fresh\<lparr>trace := trace fresh @ d @ [TickerC 2, MonitStatus ''mysql'']\<rparr>) \<and>
        count_ev is_TickerC d = 1 \<and> count_ev is_HttpGet d = 1)"
proof -
  let ?e = "sample_env (running_then 1 (Inl (New ''monit unreachable''))) always_refused"
  have r: "retrying ?e mysql 1"
    by (simp add: retrying_def status_at_def probe_at_def sample_env_def running_then_def
        always_refused_def)
  then have h1: "\<forall>k\<in>{1..1}. retrying ?e mysql k" by simp
  have h2: "status_at ?e mysql (Suc 1) = Inl (New ''monit unreachable'')"
    by (simp add: status_at_def sample_env_def running_then_def)
  from status_error_ends_wait[OF h1 h2, of fresh]
  have "\<exists>d. waitForGaleraInit ?e mysql fresh =
      Some (Some (Errorf ''error fetching status for service %q'' ''mysql''),
            fresh\<lparr>trace := trace fresh @ d @ [TickerC 2, MonitStatus ''mysql'']\<rparr>) \<and>
      count_ev is_TickerC d = 1 \<and> count_ev is_HttpGet d = 1"
    by (auto simp: StatusQueryFailed_def mysql_def numeral_2_eq_2)
  with r h2 show ?thesis by (simp add: numeral_2_eq_2)
qed

subsection \<open>The start and stop operations\<close>

text \<open>
  Claim C5. For every start intent the marker is written before the supervisor is told to
  start. When the write fails, the operation returns \<open>PersistenceFailure\<close> and the only
  call it has made is the write: the supervisor client is not called at all. When the
  operation returns, the first call it has made is the write of the marker, and it holds
  at most one start after it; when it never returns, the write and the start have both
  succeeded and it is the wait, begun after them, that never returns. (Bootstrap on the
  arbitrator makes no call at all.)
\<close>

theorem marker_write_precedes_start:
  "(arbitrator_bootstrap i m \<longrightarrow> start_service i e m w = Some (Inl InvalidIntent, w)) \<and>
   (\<not> arbitrator_bootstrap i m \<longrightarrow>
      (\<forall>err left. write_file_fails e (StateFilePath m) = Some (err, left) \<longrightarrow>
         start_service i e m w =
           Some (Inl (PersistenceFailure err),
                 w\<lparr>files := (files w)(StateFilePath m := left),
                   trace := trace w @ [WriteFile (StateFilePath m) (marker i)]\<rparr>)) \<and>
      (\<forall>r w'. start_service i e m w = Some (r, w') \<longrightarrow>
         (\<exists>d. trace w' = trace w @ WriteFile (StateFilePath m) (marker i) # d \<and>
              count_ev is_WriteFile d = 0 \<and> count_ev is_MonitStart d \<le> 1 \<and>
              count_ev is_MonitStop d = 0 \<and>
              (write_file_fails e (StateFilePath m) \<noteq> None \<longrightarrow> d = []))) \<and>
      (start_service i e m w = None \<longrightarrow>
         write_file_fails e (StateFilePath m) = None \<and>
         monit_start e (ServiceName m) = None \<and>
         waitForGaleraInit e m (started i m w) = None))"
proof (intro conjI impI allI)
  assume "arbitrator_bootstrap i m"
  then show "start_service i e m w = Some (Inl InvalidIntent, w)"
    by (rule start_service_arbitrator)
next
  fix err left
  assume "\<not> arbitrator_bootstrap i m"
    and "write_file_fails e (StateFilePath m) = Some (err, left)"
  then show "start_service i e m w =
      Some (Inl (PersistenceFailure err),
            w\<lparr>files := (files w)(StateFilePath m := left),
              trace := trace w @ [WriteFile (StateFilePath m) (marker i)]\<rparr>)"
    by (simp add: start_service_unfold)
next
  fix r w'
  assume "\<not> arbitrator_bootstrap i m" and "start_service i e m w = Some (r, w')"
  then have "\<exists>d. trace w' = trace w @ WriteFile (StateFilePath m) (marker i) # d \<and>
      count_ev is_WriteFile d = 0 \<and> count_ev is_MonitStart d \<le> 1 \<and>
      count_ev is_MonitStop d = 0 \<and>
      (write_file_fails e (StateFilePath m) \<noteq> None \<longrightarrow> d = []) \<and>
      (write_file_fails e (StateFilePath m) = None \<longrightarrow>
         files w' = (files w)(StateFilePath m \<mapsto> marker i))"
    by (rule start_service_trace)
  then show "\<exists>d. trace w' = trace w @ WriteFile (StateFilePath m) (marker i) # d \<and>
      count_ev is_WriteFile d = 0 \<and> count_ev is_MonitStart d \<le> 1 \<and>
      count_ev is_MonitStop d = 0 \<and>
      (write_file_fails e (StateFilePath m) \<noteq> None \<longrightarrow> d = [])"
    by blast
next
  assume na: "\<not> arbitrator_bootstrap i m" and "start_service i e m w = None"
  then have "write_file_fails e (StateFilePath m) = None \<and>
      monit_start e (ServiceName m) = None \<and>
      waitForGaleraInit e m (started i m w) = None"
    by (simp add: start_service_None_iff)
  then show "write_file_fails e (StateFilePath m) = None"
    and "monit_start e (ServiceName m) = None"
    and "waitForGaleraInit e m (started i m w) = None"
    by simp_all
qed

theorem marker_write_precedes_start_witness:
  "write_file_fails (disk_full (sample_env always_running always_refused))
     (StateFilePath mysql) = Some (New ''no space left on device'', None) \<and>
   StartServiceJoin (disk_full (sample_env always_running always_refused)) mysql fresh =
     Some (Inl (Wrap (New ''no space left on device'') ''failed to initialize state file''),
           \<lparr>files = Map.empty,
            trace = [WriteFile ''/var/vcap/store/mysql/state.txt'' ''CLUSTERED'']\<rparr>) \<and>
   arbitrator_bootstrap Bootstrap garbd \<and>
   StartServiceBootstrap (sample_env always_running always_refused) garbd fresh =
     Some (Inl (New ''bootstrapping arbitrator not allowed''), fresh)"
proof -
  let ?e = "disk_full (sample_env always_running always_refused)"
  have na: "\<not> arbitrator_bootstrap Join mysql"
    by (simp add: arbitrator_bootstrap_def)
  have wf: "write_file_fails ?e (StateFilePath mysql) = Some (New ''no space left on device'', None)"
    by (simp add: disk_full_def)
  from marker_write_precedes_start[of Join mysql ?e fresh] na wf
  have "start_service Join ?e mysql fresh =
      Some (Inl (PersistenceFailure (New ''no space left on device'')),
            fresh\<lparr>files := (files fresh)(StateFilePath mysql := None),
              trace := trace fresh @ [WriteFile (StateFilePath mysql) (marker Join)]\<rparr>)"
    by blast
  then have a: "StartServiceJoin ?e mysql fresh =
      Some (Inl (Wrap (New ''no space left on device'') ''failed to initialize state file''),
            \<lparr>files = Map.empty,
             trace = [WriteFile ''/var/vcap/store/mysql/state.txt'' ''CLUSTERED'']\<rparr>)"
    by (simp add: start_service_def PersistenceFailure_def marker_def fresh_def mysql_def)
  have ab: "arbitrator_bootstrap Bootstrap garbd"
    by (simp add: arbitrator_bootstrap_def garbd_def)
  from marker_write_precedes_start[of Bootstrap garbd
      "sample_env always_running always_refused" fresh] ab
  have "start_service Bootstrap (sample_env always_running always_refused) garbd fresh =
      Some (Inl InvalidIntent, fresh)"
    by blast
  then have b: "StartServiceBootstrap (sample_env always_running always_refused) garbd fresh =
      Some (Inl (New ''bootstrapping arbitrator not allowed''), fresh)"
    by (simp add: start_service_def InvalidIntent_def)
  from wf a ab b show ?thesis by simp
qed

text \<open>
  Claim C6. On the arbitrator (service name \<open>garbd\<close>) Bootstrap returns \<open>InvalidIntent\<close>
  and leaves the world as it was: no write, no start. On every other service, the first
  call of Bootstrap is the write of \<open>NEEDS_BOOTSTRAP\<close> (with at most one start after it),
  and Bootstrap returns a message exactly when the write, the start and the wait that
  follows them succeed; the message is then \<open>cluster bootstrap successful\<close>.
\<close>

theorem bootstrap_refuses_arbitrator:
  "(ServiceName m = ''garbd'' \<longrightarrow> StartServiceBootstrap e m w = Some (Inl InvalidIntent, w)) \<and>
   (ServiceName m \<noteq> ''garbd'' \<longrightarrow>
      (\<forall>r w'. StartServiceBootstrap e m w = Some (r, w') \<longrightarrow>
         (\<exists>d. trace w' = trace w @ WriteFile (StateFilePath m) ''NEEDS_BOOTSTRAP'' # d \<and>
              count_ev is_WriteFile d = 0 \<and> count_ev is_MonitStart d \<le> 1)) \<and>
      (\<forall>s w'. StartServiceBootstrap e m w = Some (Inr s, w') \<longleftrightarrow>
         s = ''cluster bootstrap successful'' \<and>
         write_file_fails e (StateFilePath m) = None \<and>
         monit_start e (ServiceName m) = None \<and>
         waitForGaleraInit e m
           (w\<lparr>files := (files w)(StateFilePath m \<mapsto> ''NEEDS_BOOTSTRAP''),
              trace := trace w @
                [WriteFile (StateFilePath m) ''NEEDS_BOOTSTRAP'',
                 MonitStart (ServiceName m)]\<rparr>) = Some (None, w')))"
proof (intro conjI impI allI)
  assume "ServiceName m = ''garbd''"
  then show "StartServiceBootstrap e m w = Some (Inl InvalidIntent, w)"
    by (simp add: StartServiceBootstrap_def InvalidIntent_def)
next
  fix r w'
  assume "ServiceName m \<noteq> ''garbd''" and "StartServiceBootstrap e m w = Some (r, w')"
  then have "\<not> arbitrator_bootstrap Bootstrap m"
    and "start_service Bootstrap e m w = Some (r, w')"
    by (simp_all add: arbitrator_bootstrap_def start_service_def)
  from start_service_trace[OF this]
  show "\<exists>d. trace w' = trace w @ WriteFile (StateFilePath m) ''NEEDS_BOOTSTRAP'' # d \<and>
      count_ev is_WriteFile d = 0 \<and> count_ev is_MonitStart d \<le> 1"
    by (auto simp: marker_def)
next
  fix s w'
  assume "ServiceName m \<noteq> ''garbd''"
  then have "\<not> arbitrator_bootstrap Bootstrap m"
    by (simp add: arbitrator_bootstrap_def)
  from start_service_success_iff[OF this, of e w s w']
  show "StartServiceBootstrap e m w = Some (Inr s, w') \<longleftrightarrow>
      s = ''cluster bootstrap successful'' \<and>
      write_file_fails e (StateFilePath m) = None \<and>
      monit_start e (ServiceName m) = None \<and>
      waitForGaleraInit e m
        (w\<lparr>files := (files w)(StateFilePath m \<mapsto> ''NEEDS_BOOTSTRAP''),
           trace := trace w @
             [WriteFile (StateFilePath m) ''NEEDS_BOOTSTRAP'',
              MonitStart (ServiceName m)]\<rparr>) = Some (None, w')"
    by (simp add: start_service_def success_message_def started_def marker_def)
qed

theorem bootstrap_refuses_arbitrator_witness:
  "ServiceName garbd = ''garbd'' \<and>
   StartServiceBootstrap (sample_env always_running (refused_then 0 (Inr http_200))) garbd fresh =
     Some (Inl (New ''bootstrapping arbitrator not allowed''), fresh) \<and>
   ServiceName mysql \<noteq> ''garbd'' \<and>
   (\<exists>d. StartServiceBootstrap (monit_down (sample_env always_running always_refused))
           mysql fresh =
           Some (Inl (New ''monit unreachable''),
                 \<lparr>files = [''/var/vcap/store/mysql/state.txt'' \<mapsto> ''NEEDS_BOOTSTRAP''],
                  trace = WriteFile ''/var/vcap/store/mysql/state.txt'' ''NEEDS_BOOTSTRAP'' # d\<rparr>) \<and>
        count_ev is_WriteFile d = 0 \<and> count_ev is_MonitStart d \<le> 1)"
proof -
  let ?e = "sample_env always_running (refused_then 0 (Inr http_200))"
  let ?f = "monit_down (sample_env always_running always_refused)"
  have g: "ServiceName garbd = ''garbd''" by (simp add: garbd_def)
  with bootstrap_refuses_arbitrator[of garbd ?e fresh]
  have a: "StartServiceBootstrap ?e garbd fresh =
      Some (Inl (New ''bootstrapping arbitrator not allowed''), fresh)"
    by (simp add: InvalidIntent_def)
  have n: "ServiceName mysql \<noteq> ''garbd''" by (simp add: mysql_def)
  have run: "StartServiceBootstrap ?f mysql fresh =
      Some (Inl (New ''monit unreachable''),
            \<lparr>files = [''/var/vcap/store/mysql/state.txt'' \<mapsto> ''NEEDS_BOOTSTRAP''],
             trace = [WriteFile ''/var/vcap/store/mysql/state.txt'' ''NEEDS_BOOTSTRAP'',
                      MonitStart ''mysql'']\<rparr>)"
    by (simp add: StartServiceBootstrap_def ioutil_WriteFile_def MonitClient_Start_def
        emit_def monit_down_def sample_env_def mysql_def fresh_def)
  with bootstrap_refuses_arbitrator[of mysql ?f fresh] n
  have "\<exists>d. trace \<lparr>files = [''/var/vcap/store/mysql/state.txt'' \<mapsto> ''NEEDS_BOOTSTRAP''],
             trace = [WriteFile ''/var/vcap/store/mysql/state.txt'' ''NEEDS_BOOTSTRAP'',
                      MonitStart ''mysql'']\<rparr> =
      trace fresh @ WriteFile (StateFilePath mysql) ''NEEDS_BOOTSTRAP'' # d \<and>
      count_ev is_WriteFile d = 0 \<and> count_ev is_MonitStart d \<le> 1"
    by blast
  then have "\<exists>d. [WriteFile ''/var/vcap/store/mysql/state.txt'' ''NEEDS_BOOTSTRAP'',
        MonitStart ''mysql''] =
      WriteFile ''/var/vcap/store/mysql/state.txt'' ''NEEDS_BOOTSTRAP'' # d \<and>
      count_ev is_WriteFile d = 0 \<and> count_ev is_MonitStart d \<le> 1"
    by (simp add: fresh_def mysql_def)
  with run have b: "\<exists>d. StartServiceBootstrap ?f mysql fresh =
      Some (Inl (New ''monit unreachable''),
            \<lparr>files = [''/var/vcap/store/mysql/state.txt'' \<mapsto> ''NEEDS_BOOTSTRAP''],
             trace = WriteFile ''/var/vcap/store/mysql/state.txt'' ''NEEDS_BOOTSTRAP'' # d\<rparr>) \<and>
      count_ev is_WriteFile d = 0 \<and> count_ev is_MonitStart d \<le> 1"
    by auto
  from g a n b show ?thesis by simp
qed

text \<open>
  Claim C7. Join writes the marker \<open>CLUSTERED\<close> and SingleNode the marker \<open>SINGLE_NODE\<close>,
  as their first call, for every service name, \<open>garbd\<close> included. Each returns a message
  exactly when the write, the start and the wait that follows them succeed; the message
  is then \<open>join cluster successful\<close> and \<open>single node start successful\<close>, and the file
  holds the marker.
\<close>

theorem join_and_single_node_unrestricted:
  "(\<forall>r w'. StartServiceJoin e m w = Some (r, w') \<longrightarrow>
      (\<exists>d. trace w' = trace w @ WriteFile (StateFilePath m) ''CLUSTERED'' # d \<and>
           count_ev is_WriteFile d = 0)) \<and>
   (\<forall>s w'. StartServiceJoin e m w = Some (Inr s, w') \<longleftrightarrow>
      s = ''join cluster successful'' \<and>
      write_file_fails e (StateFilePath m) = None \<and>
      monit_start e (ServiceName m) = None \<and>
      waitForGaleraInit e m
        (w\<lparr>files := (files w)(StateFilePath m \<mapsto> ''CLUSTERED''),
           trace := trace w @
             [WriteFile (StateFilePath m) ''CLUSTERED'', MonitStart (ServiceName m)]\<rparr>) =
        Some (None, w')) \<and>
   (\<forall>s w'. StartServiceJoin e m w = Some (Inr s, w') \<longrightarrow>
      files w' (StateFilePath m) = Some ''CLUSTERED'') \<and>
   (\<forall>r w'. StartServiceSingleNode e m w = Some (r, w') \<longrightarrow>
      (\<exists>d. trace w' = trace w @ WriteFile (StateFilePath m) ''SINGLE_NODE'' # d \<and>
           count_ev is_WriteFile d = 0)) \<and>
   (\<forall>s w'. StartServiceSingleNode e m w = Some (Inr s, w') \<longleftrightarrow>
      s = ''single node start successful'' \<and>
      write_file_fails e (StateFilePath m) = None \<and>
      monit_start e (ServiceName m) = None \<and>
      waitForGaleraInit e m
        (w\<lparr>files := (files w)(StateFilePath m \<mapsto> ''SINGLE_NODE''),
           trace := trace w @
             [WriteFile (StateFilePath m) ''SINGLE_NODE'', MonitStart (ServiceName m)]\<rparr>) =
        Some (None, w')) \<and>
   (\<forall>s w'. StartServiceSingleNode e m w = Some (Inr s, w') \<longrightarrow>
      files w' (StateFilePath m) = Some ''SINGLE_NODE'')"
proof -
  have nj: "\<not> arbitrator_bootstrap Join m" and ns: "\<not> arbitrator_bootstrap SingleNode m"
    by (simp_all add: arbitrator_bootstrap_def)
  have j1: "\<exists>d. trace w' = trace w @ WriteFile (StateFilePath m) ''CLUSTERED'' # d \<and>
      count_ev is_WriteFile d = 0"
    if "StartServiceJoin e m w = Some (r, w')" for r w'
  proof -
    from that have "start_service Join e m w = Some (r, w')"
      by (simp add: start_service_def)
    from start_service_trace[OF nj this] show ?thesis
      by (auto simp: marker_def)
  qed
  have j2: "StartServiceJoin e m w = Some (Inr s, w') \<longleftrightarrow>
      s = ''join cluster successful'' \<and>
      write_file_fails e (StateFilePath m) = None \<and>
      monit_start e (ServiceName m) = None \<and>
      waitForGaleraInit e m
        (w\<lparr>files := (files w)(StateFilePath m \<mapsto> ''CLUSTERED''),
           trace := trace w @
             [WriteFile (StateFilePath m) ''CLUSTERED'', MonitStart (ServiceName m)]\<rparr>) =
        Some (None, w')" for s w'
    using start_service_success_iff[OF nj, of e w s w']
    by (simp add: start_service_def success_message_def started_def marker_def)
  have j3: "files w' (StateFilePath m) = Some ''CLUSTERED''"
    if "StartServiceJoin e m w = Some (Inr s, w')" for s w'
  proof -
    from that have res: "start_service Join e m w = Some (Inr s, w')"
      by (simp add: start_service_def)
    then have "write_file_fails e (StateFilePath m) = None"
      by (simp add: start_service_success_iff[OF nj])
    with start_service_trace[OF nj res] show ?thesis
      by (auto simp: marker_def)
  qed
  have s1: "\<exists>d. trace w' = trace w @ WriteFile (StateFilePath m) ''SINGLE_NODE'' # d \<and>
      count_ev is_WriteFile d = 0"
    if "StartServiceSingleNode e m w = Some (r, w')" for r w'
  proof -
    from that have "start_service SingleNode e m w = Some (r, w')"
      by (simp add: start_service_def)
    from start_service_trace[OF ns this] show ?thesis
      by (auto simp: marker_def)
  qed
  have s2: "StartServiceSingleNode e m w = Some (Inr s, w') \<longleftrightarrow>
      s = ''single node start successful'' \<and>
      write_file_fails e (StateFilePath m) = None \<and>
      monit_start e (ServiceName m) = None \<and>
      waitForGaleraInit e m
        (w\<lparr>files := (files w)(StateFilePath m \<mapsto> ''SINGLE_NODE''),
           trace := trace w @
             [WriteFile (StateFilePath m) ''SINGLE_NODE'', MonitStart (ServiceName m)]\<rparr>) =
        Some (None, w')" for s w'
    using start_service_success_iff[OF ns, of e w s w']
    by (simp add: start_service_def success_message_def started_def marker_def)
  have s3: "files w' (StateFilePath m) = Some ''SINGLE_NODE''"
    if "StartServiceSingleNode e m w = Some (Inr s, w')" for s w'
  proof -
    from that have res: "start_service SingleNode e m w = Some (Inr s, w')"
      by (simp add: start_service_def)
    then have "write_file_fails e (StateFilePath m) = None"
      by (simp add: start_service_success_iff[OF ns])
    with start_service_trace[OF ns res] show ?thesis
      by (auto simp: marker_def)
  qed
  from j1 j2 j3 s1 s2 s3 show ?thesis by blast
qed

theorem join_and_single_node_unrestricted_witness:
  "StartServiceJoin (sample_env always_running (refused_then 0 (Inr http_200))) garbd fresh =
     Some (Inr ''join cluster successful'',
       \<lparr>files = [''/var/vcap/store/garbd/state.txt'' \<mapsto> ''CLUSTERED''],
        trace =
          [WriteFile ''/var/vcap/store/garbd/state.txt'' ''CLUSTERED'',
           MonitStart ''garbd'',
           TickerC 1,
           MonitStatus ''garbd'',
           LogInfo ''check-monit-state'' [(''service'', ''garbd''), (''state'', ''running'')],
           LogInfo ''check-galera-init'' [],
           HttpGet ''http://localhost:8114'',
           LogInfo ''check-galera-init'' [(''status'', ''200 OK'')]]\<rparr>) \<and>
   (\<exists>w'. StartServiceSingleNode (sample_env always_running (refused_then 0 (Inr http_200)))
           garbd fresh = Some (Inr ''single node start successful'', w') \<and>
         files w' (StateFilePath garbd) = Some ''SINGLE_NODE'')"
proof -
  let ?e = "sample_env always_running (refused_then 0 (Inr http_200))"
  let ?after = "\<lambda>tok. \<lparr>files = [''/var/vcap/store/garbd/state.txt'' \<mapsto> tok],
        trace =
          [WriteFile ''/var/vcap/store/garbd/state.txt'' tok,
           MonitStart ''garbd'',
           TickerC 1,
           MonitStatus ''garbd'',
           LogInfo ''check-monit-state'' [(''service'', ''garbd''), (''state'', ''running'')],
           LogInfo ''check-galera-init'' [],
           HttpGet ''http://localhost:8114'',
           LogInfo ''check-galera-init'' [(''status'', ''200 OK'')]]\<rparr>"
  have wr: "write_file_fails ?e (StateFilePath garbd) = None"
    and st: "monit_start ?e (ServiceName garbd) = None"
    by (simp_all add: sample_env_def)
  have wait: "waitForGaleraInit ?e garbd
      (fresh\<lparr>files := (files fresh)(StateFilePath garbd \<mapsto> tok),
         trace := trace fresh @
           [WriteFile (StateFilePath garbd) tok, MonitStart (ServiceName garbd)]\<rparr>) =
      Some (None, ?after tok)" for tok
    by (simp add: waitForGaleraInit_def waitLoop.simps[of _ _ 0] waitTick_def
        MonitClient_Status_def httpClient_Get_def emit_def sample_env_def always_running_def
        refused_then_def http_200_def garbd_def fresh_def StatusOK_def)
  note inst = join_and_single_node_unrestricted[of ?e garbd fresh]
  from inst have j: "StartServiceJoin ?e garbd fresh = Some (Inr s, w') \<longleftrightarrow>
      s = ''join cluster successful'' \<and>
      write_file_fails ?e (StateFilePath garbd) = None \<and>
      monit_start ?e (ServiceName garbd) = None \<and>
      waitForGaleraInit ?e garbd
        (fresh\<lparr>files := (files fresh)(StateFilePath garbd \<mapsto> ''CLUSTERED''),
           trace := trace fresh @
             [WriteFile (StateFilePath garbd) ''CLUSTERED'', MonitStart (ServiceName garbd)]\<rparr>) =
        Some (None, w')" for s w'
    by (elim conjE allE)
  from inst have n: "StartServiceSingleNode ?e garbd fresh = Some (Inr s, w') \<longleftrightarrow>
      s = ''single node start successful'' \<and>
      write_file_fails ?e (StateFilePath garbd) = None \<and>
      monit_start ?e (ServiceName garbd) = None \<and>
      waitForGaleraInit ?e garbd
        (fresh\<lparr>files := (files fresh)(StateFilePath garbd \<mapsto> ''SINGLE_NODE''),
           trace := trace fresh @
             [WriteFile (StateFilePath garbd) ''SINGLE_NODE'', MonitStart (ServiceName garbd)]\<rparr>) =
        Some (None, w')" for s w'
    by (elim conjE allE)
  have a: "StartServiceJoin ?e garbd fresh =
      Some (Inr ''join cluster successful'', ?after ''CLUSTERED'')"
    by (simp only: j wr st wait)
  have b: "StartServiceSingleNode ?e garbd fresh =
      Some (Inr ''single node start successful'', ?after ''SINGLE_NODE'')"
    by (simp only: n wr st wait)
  have "files (?after ''SINGLE_NODE'') (StateFilePath garbd) = Some ''SINGLE_NODE''"
    by (simp add: garbd_def)
  with b have c: "\<exists>w'. StartServiceSingleNode ?e garbd fresh =
      Some (Inr ''single node start successful'', w') \<and>
      files w' (StateFilePath garbd) = Some ''SINGLE_NODE''"
    by (intro exI conjI)
  from a c show ?thesis by (rule conjI)
qed

text \<open>
  Claim C8. Stop makes one call, the supervisor's stop, and nothing else: no write (the
  files are as they were), no tick, no status query, no GET. It returns
  \<open>stop successful\<close> when the stop returns \<^verbatim>\<open>nil\<close>, and the supervisor's own error
  otherwise.
\<close>

theorem stop_only_stops:
  "\<exists>r. StopService e m w = Some (r, w\<lparr>trace := trace w @ [MonitStop (ServiceName m)]\<rparr>) \<and>
       (r = Inr ''stop successful'' \<longleftrightarrow> monit_stop e (ServiceName m) = None) \<and>
       (\<forall>err. monit_stop e (ServiceName m) = Some err \<longrightarrow> r = Inl err)"
proof (cases "monit_stop e (ServiceName m)")
  case None
  then have "StopService e m w =
      Some (Inr ''stop successful'', w\<lparr>trace := trace w @ [MonitStop (ServiceName m)]\<rparr>)"
    by (simp add: StopService_def MonitClient_Stop_def emit_def)
  with None show ?thesis by simp
next
  case (Some err)
  then have "StopService e m w =
      Some (Inl err, w\<lparr>trace := trace w @ [MonitStop (ServiceName m)]\<rparr>)"
    by (simp add: StopService_def MonitClient_Stop_def emit_def)
  with Some show ?thesis by simp
qed

theorem stop_only_stops_witness:
  "StopService (sample_env always_running always_refused) mysql fresh =
     Some (Inr ''stop successful'', \<lparr>files = Map.empty, trace = [MonitStop ''mysql'']\<rparr>) \<and>
   monit_stop (monit_down (sample_env always_running always_refused)) (ServiceName mysql) =
     Some (New ''monit unreachable'') \<and>
   StopService (monit_down (sample_env always_running always_refused)) mysql fresh =
     Some (Inl (New ''monit unreachable''), \<lparr>files = Map.empty, trace = [MonitStop ''mysql'']\<rparr>)"
proof -
  let ?e = "sample_env always_running always_refused"
  have ok: "monit_stop ?e (ServiceName mysql) = None"
    by (simp add: sample_env_def)
  have down: "monit_stop (monit_down ?e) (ServiceName mysql) = Some (New ''monit unreachable'')"
    by (simp add: monit_down_def)
  from stop_only_stops[of ?e mysql fresh] ok
  have a: "StopService ?e mysql fresh =
      Some (Inr ''stop successful'', \<lparr>files = Map.empty, trace = [MonitStop ''mysql'']\<rparr>)"
    by (auto simp: fresh_def mysql_def)
  from stop_only_stops[of "monit_down ?e" mysql fresh] down
  have b: "StopService (monit_down ?e) mysql fresh =
      Some (Inl (New ''monit unreachable''), \<lparr>files = Map.empty, trace = [MonitStop ''mysql'']\<rparr>)"
    by (auto simp: fresh_def mysql_def)
  from a down b show ?thesis by simp
qed

subsection \<open>Termination of the wait\<close>

text \<open>
  Claim C9. The wait has no deadline and no limit on the number of ticks. For every
  environment: when the ticks 1 to \<open>N\<close> are retried (running, and the GET fails) and the
  tick \<open>N + 1\<close> is decisive, the wait returns after exactly \<open>N + 1\<close> ticks, whatever \<open>N\<close> is;
  a wait that returns has returned on its first decisive tick; and when every tick is
  retried the wait never returns.
\<close>

theorem wait_has_no_deadline:
  "(\<forall>N. (\<forall>k\<in>{1..N}. retrying e m k) \<and> decisive e m (Suc N) \<longrightarrow>
      (\<exists>r d. waitForGaleraInit e m w = Some (r, w\<lparr>trace := trace w @ d\<rparr>) \<and>
             count_ev is_TickerC d = Suc N)) \<and>
   (\<forall>r w'. waitForGaleraInit e m w = Some (r, w') \<longrightarrow>
      (\<exists>N d. (\<forall>k\<in>{1..N}. retrying e m k) \<and> decisive e m (Suc N) \<and>
             w' = w\<lparr>trace := trace w @ d\<rparr> \<and> count_ev is_TickerC d = Suc N)) \<and>
   ((\<forall>k\<ge>1. retrying e m k) \<longrightarrow> waitForGaleraInit e m w = None)"
proof (intro conjI allI impI)
  fix N
  assume h: "(\<forall>k\<in>{1..N}. retrying e m k) \<and> decisive e m (Suc N)"
  then have "tick_flow e m (Suc N) \<noteq> Continue"
    by (simp add: tick_flow_Continue decisive_iff)
  then obtain r where "tick_flow e m (Suc N) = Return r"
    by (cases "tick_flow e m (Suc N)") simp_all
  with h have "waitForGaleraInit e m w =
      Some (r, w\<lparr>trace := trace w @ retry_events e m 0 N @ tick_events e m (Suc N)\<rparr>)"
    by (simp add: wait_returns)
  moreover have "count_ev is_TickerC (retry_events e m 0 N @ tick_events e m (Suc N)) = Suc N"
    by (simp add: retry_events_count tick_events_count)
  ultimately show "\<exists>r d. waitForGaleraInit e m w = Some (r, w\<lparr>trace := trace w @ d\<rparr>) \<and>
      count_ev is_TickerC d = Suc N"
    by blast
next
  fix r w'
  assume "waitForGaleraInit e m w = Some (r, w')"
  from wait_Some_D[OF this] obtain N where
    N: "\<forall>k\<in>{1..N}. retrying e m k" "tick_flow e m (Suc N) = Return r"
       "w' = w\<lparr>trace := trace w @ retry_events e m 0 (Suc N)\<rparr>"
    by blast
  from N(2) have "tick_flow e m (Suc N) \<noteq> Continue" by simp
  then have "decisive e m (Suc N)"
    by (simp add: tick_flow_Continue decisive_iff)
  moreover have "count_ev is_TickerC (retry_events e m 0 (Suc N)) = Suc N"
    by (simp only: retry_events_count)
  ultimately show "\<exists>N d. (\<forall>k\<in>{1..N}. retrying e m k) \<and> decisive e m (Suc N) \<and>
      w' = w\<lparr>trace := trace w @ d\<rparr> \<and> count_ev is_TickerC d = Suc N"
    using N(1,3) by blast
next
  assume "\<forall>k\<ge>1. retrying e m k"
  then show "waitForGaleraInit e m w = None"
    by (rule wait_never_returns)
qed

theorem wait_has_no_deadline_witness:
  "waitForGaleraInit (sample_env always_running always_refused) mysql fresh = None \<and>
   retrying (sample_env always_running (refused_then 2 (Inr http_503))) mysql 1 \<and>
   retrying (sample_env always_running (refused_then 2 (Inr http_503))) mysql 2 \<and>
   decisive (sample_env always_running (refused_then 2 (Inr http_503))) mysql 3 \<and>
   (\<exists>r d. waitForGaleraInit (sample_env always_running (refused_then 2 (Inr http_503)))
             mysql fresh = Some (r, fresh\<lparr>trace := trace fresh @ d\<rparr>) \<and>
          count_ev is_TickerC d = 3)"
proof -
  let ?e = "sample_env always_running always_refused"
  let ?f = "sample_env always_running (refused_then 2 (Inr http_503))"
  have "\<forall>k\<ge>1. retrying ?e mysql k"
    by (simp add: retrying_def status_at_def probe_at_def sample_env_def always_running_def
        always_refused_def)
  then have a: "waitForGaleraInit ?e mysql fresh = None"
    by (rule wait_has_no_deadline[of ?e mysql fresh, THEN conjunct2, THEN conjunct2, THEN mp])
  have r: "retrying ?f mysql 1" "retrying ?f mysql 2"
    by (simp_all add: retrying_def status_at_def probe_at_def sample_env_def
        always_running_def refused_then_def)
  have all: "\<forall>k\<in>{1..2}. retrying ?f mysql k"
    by (simp add: retrying_def status_at_def probe_at_def sample_env_def always_running_def
        refused_then_def)
  have d: "decisive ?f mysql (Suc 2)"
    by (simp add: decisive_def status_at_def probe_at_def sample_env_def always_running_def
        refused_then_def)
  from all d have "(\<forall>k\<in>{1..2}. retrying ?f mysql k) \<and> decisive ?f mysql (Suc 2)" ..
  then have "\<exists>r d. waitForGaleraInit ?f mysql fresh = Some (r, fresh\<lparr>trace := trace fresh @ d\<rparr>) \<and>
      count_ev is_TickerC d = Suc 2"
    by (rule wait_has_no_deadline[of ?f mysql fresh, THEN conjunct1, THEN spec, THEN mp])
  with a r d show ?thesis by (simp add: eval_nat_numeral)
qed

subsection \<open>The marker after a failure\<close>

text \<open>
  Claim C10. Once the marker of a start intent has been written, a later failure of the
  same operation (of the start, or of the wait) leaves it in place: when the operation
  returns an error other than that of the write, the files are those it found with the
  marker written, and the write of the marker is the only write it has made.
\<close>

theorem marker_survives_failure:
  assumes "\<not> arbitrator_bootstrap i m"
    and "write_file_fails e (StateFilePath m) = None"
    and "start_service i e m w = Some (Inl err, w')"
  shows "files w' = (files w)(StateFilePath m \<mapsto> marker i) \<and>
         files w' (StateFilePath m) = Some (marker i) \<and>
         (\<exists>d. trace w' = trace w @ WriteFile (StateFilePath m) (marker i) # d \<and>
              count_ev is_WriteFile d = 0)"
proof -
  from start_service_trace[OF assms(1,3)] assms(2) obtain d where
    "trace w' = trace w @ WriteFile (StateFilePath m) (marker i) # d"
    "count_ev is_WriteFile d = 0"
    "files w' = (files w)(StateFilePath m \<mapsto> marker i)"
    by blast
  then show ?thesis by auto
qed

theorem marker_survives_failure_witness:
  "\<not> arbitrator_bootstrap Bootstrap mysql \<and>
   write_file_fails (sample_env always_running (refused_then 1 (Inr http_503)))
     (StateFilePath mysql) = None \<and>
   (\<exists>w'. start_service Bootstrap (sample_env always_running (refused_then 1 (Inr http_503)))
            mysql fresh =
            Some (Inl (Errorf ''unexpected response from node: %v'' ''503 Service Unavailable''), w') \<and>
          files w' ''/var/vcap/store/mysql/state.txt'' = Some ''NEEDS_BOOTSTRAP'')"
proof -
  let ?e = "sample_env always_running (refused_then 1 (Inr http_503))"
  have na: "\<not> arbitrator_bootstrap Bootstrap mysql"
    by (simp add: arbitrator_bootstrap_def mysql_def)
  have wr: "write_file_fails ?e (StateFilePath mysql) = None"
    by (simp add: sample_env_def)
  have "\<exists>w'. start_service Bootstrap ?e mysql fresh =
      Some (Inl (Errorf ''unexpected response from node: %v'' ''503 Service Unavailable''), w')"
    by (simp add: start_service_def StartServiceBootstrap_def ioutil_WriteFile_def
        MonitClient_Start_def waitForGaleraInit_def waitLoop.simps[of _ _ 0]
        waitLoop.simps[of _ _ "Suc 0"] waitTick_def MonitClient_Status_def httpClient_Get_def
        emit_def sample_env_def always_running_def refused_then_def http_503_def mysql_def
        fresh_def StatusOK_def)
  then obtain w' where run: "start_service Bootstrap ?e mysql fresh =
      Some (Inl (Errorf ''unexpected response from node: %v'' ''503 Service Unavailable''), w')" ..
  from marker_survives_failure[OF na wr run]
  have "files w' (StateFilePath mysql) = Some (marker Bootstrap)" by simp
  then have "files w' ''/var/vcap/store/mysql/state.txt'' = Some ''NEEDS_BOOTSTRAP''"
    by (simp add: mysql_def marker_def)
  with na wr run show ?thesis by blast
qed

end
